theory Spec2Isabelle
  imports Main
begin

section \<open>JavaScript values used by the orchestration code\<close>

text \<open>
  The program is JavaScript. Strings are modelled as \<^typ>\<open>string\<close>, numbers that the
  code computes with are integers (all of them are octets, counters or epoch milliseconds,
  far inside the range where a double is exact), and \<open>NaN\<close> is the value \<open>None\<close> of an
  \<^typ>\<open>int option\<close>. A rejected promise or a thrown exception is the \<open>Inl\<close> side of a
  sum, a resolved promise the \<open>Inr\<close> side.
\<close>

datatype error =
    TypeError string     \<comment> \<open>\<open>throw new TypeError(msg)\<close>\<close>
  | Error string         \<comment> \<open>\<open>throw new Error(msg)\<close>\<close>
  | Rejected string      \<comment> \<open>a rejection that comes from a collaborator or the provider\<close>

subsection \<open>Decimal numerals\<close>

definition digit_char :: "int \<Rightarrow> char" where
  "digit_char d = char_of (48 + d)"

definition digit_val :: "char \<Rightarrow> int option" where
  "digit_val c = (let n = (of_char c :: int) in if 48 \<le> n \<and> n \<le> 57 then Some (n - 48) else None)"

text \<open>Number to string for a non-negative integer: its decimal digits, no leading zero.\<close>

function dec_digits :: "int \<Rightarrow> string" where
  "dec_digits n = (if n < 10 then [digit_char n] else dec_digits (n div 10) @ [digit_char (n mod 10)])"
  by pat_completeness auto
termination
  by (relation "measure nat") auto

declare dec_digits.simps [simp del]

text \<open>\<open>n + ''...''\<close>: the string a JavaScript integer number is converted to.\<close>

definition js_number_to_string :: "int \<Rightarrow> string" where
  "js_number_to_string i = (if i < 0 then CHR ''-'' # dec_digits (- i) else dec_digits i)"

fun parse_digits :: "int \<Rightarrow> string \<Rightarrow> int option" where
  "parse_digits acc [] = Some acc"
| "parse_digits acc (c # cs) =
     (case digit_val c of None \<Rightarrow> None | Some d \<Rightarrow> parse_digits (10 * acc + d) cs)"

text \<open>
  \<open>+s\<close> (ToNumber) on a string. The empty string is 0 and a string of decimal digits is
  its value; every other string is \<open>NaN\<close> here. JavaScript also reads signs, fractions,
  exponents, hexadecimal literals and surrounding white space as numbers: those forms do
  not occur in the octets and timestamps the provider returns, and the theorems below
  assume digit strings where the value matters.
\<close>

definition js_to_number :: "string \<Rightarrow> int option" where
  "js_to_number s = parse_digits 0 s"

text \<open>\<open>+x\<close> where \<open>x\<close> may be \<open>undefined\<close> (\<open>None\<close>): \<open>+undefined\<close> is \<open>NaN\<close>.\<close>

definition js_to_number_opt :: "string option \<Rightarrow> int option" where
  "js_to_number_opt x = (case x of None \<Rightarrow> None | Some s \<Rightarrow> js_to_number s)"

text \<open>\<open>a > b\<close> on numbers: false as soon as one side is \<open>NaN\<close>.\<close>

definition js_gt :: "int option \<Rightarrow> int option \<Rightarrow> bool" where
  "js_gt a b = (case (a, b) of (Some x, Some y) \<Rightarrow> x > y | _ \<Rightarrow> False)"

definition all_digits :: "string \<Rightarrow> bool" where
  "all_digits s = (s \<noteq> [] \<and> list_all (\<lambda>c. digit_val c \<noteq> None) s)"

section \<open>Address allocator (src/aws/subnetManager.js)\<close>

text \<open>A subnet description as \<open>describeSubnets\<close> returns it: the fields the code reads.\<close>

record subnet =
  CidrBlock :: string
  Tags :: "(string \<times> string) list"

text \<open>\<open>cidr.split('.')\<close>: one segment more than there are dots, never an empty list.\<close>

fun split_dot :: "string \<Rightarrow> string list" where
  "split_dot [] = [[]]"
| "split_dot (c # cs) =
     (if c = CHR ''.'' then [] # split_dot cs
      else (case split_dot cs of [] \<Rightarrow> [[c]] | seg # segs \<Rightarrow> (c # seg) # segs))"

text \<open>\<open>Array.prototype.pop\<close>: the last element (\<open>undefined\<close> on an empty array) and the rest.\<close>

definition pop :: "'a list \<Rightarrow> 'a option \<times> 'a list" where
  "pop xs = (if xs = [] then (None, []) else (Some (last xs), butlast xs))"

text \<open>
  The body of the \<open>forEach\<close> in \<open>findHighestCidr\<close>, up to the comparison:
  \<open>classes = cidr.split('.'); classes.pop(); c = +classes.pop()\<close>.
\<close>

definition cidr_third :: "string \<Rightarrow> int option" where
  "cidr_third cidr =
     (let classes = split_dot cidr;
          classes1 = snd (pop classes)
      in js_to_number_opt (fst (pop classes1)))"

fun findHighestCidr_from :: "int \<Rightarrow> subnet list \<Rightarrow> int" where
  "findHighestCidr_from highest [] = highest"
| "findHighestCidr_from highest (r # rs) =
     (let c = cidr_third (CidrBlock r)
      in findHighestCidr_from (if js_gt c (Some highest) then the c else highest) rs)"

definition findHighestCidr :: "subnet list \<Rightarrow> int" where
  "findHighestCidr list = findHighestCidr_from (- 1) list"

definition incrementHighestCidr :: "subnet list \<Rightarrow> string" where
  "incrementHighestCidr list =
     (let highest = findHighestCidr list + 1
      in js_number_to_string highest @ ''.0/24'')"

text \<open>
  \<open>getNextSubnet(pid)\<close> joins two promises with \<open>Q.all\<close>: the project's address prefix
  (\<open>getCidrPrefix\<close>, which reads the parent network through \<open>vpcManager\<close> and
  \<open>util.getCidrPrefixFromIPString\<close>, neither part of these sources) and the postfix
  computed from \<open>describe()\<close>. Both outcomes are arguments here; a rejection of either
  rejects the result.
\<close>

definition getCidrPostfix :: "error + subnet list \<Rightarrow> error + string" where
  "getCidrPostfix described =
     (case described of Inl e \<Rightarrow> Inl e | Inr list \<Rightarrow> Inr (incrementHighestCidr list))"

definition getNextSubnet :: "error + string \<Rightarrow> error + subnet list \<Rightarrow> error + string" where
  "getNextSubnet prefix described =
     (case prefix of
        Inl e \<Rightarrow> Inl e
      | Inr p \<Rightarrow>
          (case getCidrPostfix described of
             Inl e \<Rightarrow> Inl e
           | Inr q \<Rightarrow> Inr (p @ ''.'' @ q)))"

text \<open>
  The properties of the object that \<open>getSubnetManager\<close> returns, in the order of its
  final \<open>return\<close>.
\<close>

definition subnetManager_exports :: "string list" where
  "subnetManager_exports =
     [''describe'', ''defaultAssocId'', ''create'', ''destroy'', ''findProject'',
      ''findProjectTag'', ''findHighestCidr'', ''incrementHighestCidr'',
      ''getFilteredAssociations'', ''isPidInSubnetList'', ''next'', ''cidrPrefix'']"

subsection \<open>Reading the allocator's results\<close>

text \<open>
  The third component of a block is a decimal numeral (the case in which the model of
  \<open>+s\<close> above is exact).
\<close>

definition octet3_decimal :: "string \<Rightarrow> bool" where
  "octet3_decimal cidr =
     (case fst (pop (snd (pop (split_dot cidr)))) of None \<Rightarrow> False | Some seg \<Rightarrow> all_digits seg)"

text \<open>The third component of a block is an octet: a decimal numeral from 0 to 255.\<close>

definition octet3_in_range :: "string \<Rightarrow> bool" where
  "octet3_in_range cidr =
     (octet3_decimal cidr \<and> (case cidr_third cidr of None \<Rightarrow> False | Some k \<Rightarrow> 0 \<le> k \<and> k \<le> 255))"

text \<open>
  The network part of a \<open>/24\<close> block: every dot-separated component but the last. Two
  \<open>/24\<close> blocks overlap exactly when their network parts are equal.
\<close>

definition network24 :: "string \<Rightarrow> string list" where
  "network24 cidr = snd (pop (split_dot cidr))"

text \<open>
  Allocating in sequence: each request (an address prefix and the tags the new subnet is
  created with) calls \<open>getNextSubnet\<close> on the subnets tagged so far, and the new subnet is
  among the tagged ones for the next request. The result lists the blocks handed out.
\<close>

fun allocate_seq :: "(string \<times> (string \<times> string) list) list \<Rightarrow> subnet list \<Rightarrow> string list" where
  "allocate_seq [] list = []"
| "allocate_seq ((p, tags) # reqs) list =
     (case getNextSubnet (Inr p) (Inr list) of
        Inl e \<Rightarrow> []
      | Inr c \<Rightarrow> c # allocate_seq reqs (list @ [\<lparr>CidrBlock = c, Tags = tags\<rparr>]))"

section \<open>Instance lifecycle manager (src/aws/ec2Manager.js)\<close>

subsection \<open>Configuration values\<close>

text \<open>
  A property of a configuration object can hold any JavaScript value; validation only
  asks whether it is truthy. Numbers are integers or \<open>NaN\<close>; an object is opaque.
\<close>

datatype jsval = JUndefined | JNull | JBool bool | JNum int | JNaN | JStr string | JObject

definition truthy :: "jsval \<Rightarrow> bool" where
  "truthy v =
     (case v of
        JUndefined \<Rightarrow> False
      | JNull \<Rightarrow> False
      | JBool b \<Rightarrow> b
      | JNum n \<Rightarrow> n \<noteq> 0
      | JNaN \<Rightarrow> False
      | JStr s \<Rightarrow> s \<noteq> []
      | JObject \<Rightarrow> True)"

text \<open>\<open>'' + v\<close>: the string a value is concatenated as.\<close>

definition js_to_string :: "jsval \<Rightarrow> string" where
  "js_to_string v =
     (case v of
        JUndefined \<Rightarrow> ''undefined''
      | JNull \<Rightarrow> ''null''
      | JBool b \<Rightarrow> (if b then ''true'' else ''false'')
      | JNum n \<Rightarrow> js_number_to_string n
      | JNaN \<Rightarrow> ''NaN''
      | JStr s \<Rightarrow> s
      | JObject \<Rightarrow> ''[object Object]'')"

text \<open>
  Registry credentials: \<open>{cfg}\<close> or \<open>{username, password, email}\<close>; an absent or empty
  property is the empty string. \<open>json\<close> is \<open>JSON.stringify\<close> of the object
  \<open>{'https://index.docker.io/v1/user': auth}\<close>, computed by the platform.
\<close>

record auth =
  cfg :: string
  username :: string
  password :: string
  email :: string
  json :: string

text \<open>
  \<open>sshDataOrPath\<close>: an array of public keys, or anything else, which is taken as a path
  and read with \<open>loadUserPublicKeys\<close> (the file system's answer is the argument).
\<close>

datatype ssh_source = SshKeys "string list" | SshPath "error + string list"

record config =
  clusterName :: jsval
  sgId :: jsval
  subnetId :: jsval
  pid :: jsval
  pr :: jsval
  deployment :: jsval
  auth :: "auth option"
  sshPath :: ssh_source
  apiConfig :: bool   \<comment> \<open>whether \<open>config.apiConfig\<close> is an object\<close>

text \<open>\<open>config[attr]\<close> for the attribute names validation asks for.\<close>

definition config_get :: "config \<Rightarrow> string \<Rightarrow> jsval" where
  "config_get c attr =
     (if attr = ''clusterName'' then clusterName c
      else if attr = ''sgId'' then sgId c
      else if attr = ''subnetId'' then subnetId c
      else if attr = ''pid'' then pid c
      else if attr = ''pr'' then pr c
      else if attr = ''deployment'' then deployment c
      else JUndefined)"

subsection \<open>Validation\<close>

definition configAttributes :: "string list" where
  "configAttributes = [''clusterName'', ''sgId'', ''subnetId'', ''pid'']"

definition prConfigAttributes :: "string list" where
  "prConfigAttributes = configAttributes @ [''pr'']"

definition deploymentConfigAttributes :: "string list" where
  "deploymentConfigAttributes = configAttributes @ [''deployment'']"

text \<open>
  The \<open>forEach\<close> of both validators: the first attribute whose value is falsy throws.
\<close>

fun require_attributes :: "config \<Rightarrow> string list \<Rightarrow> error + unit" where
  "require_attributes c [] = Inr ()"
| "require_attributes c (attr # attrs) =
     (if truthy (config_get c attr) then require_attributes c attrs
      else Inl (TypeError (''Instance requires '' @ attr)))"

text \<open>A falsy \<open>config\<close> (\<open>undefined\<close>, \<open>null\<close>) is \<open>None\<close>.\<close>

definition validateCreateDeploymentConfig :: "config option \<Rightarrow> error + unit" where
  "validateCreateDeploymentConfig config =
     (case config of
        None \<Rightarrow> Inl (TypeError ''This function requires a configuration object'')
      | Some c \<Rightarrow> require_attributes c deploymentConfigAttributes)"

definition validateCreatePrConfig :: "config option \<Rightarrow> error + unit" where
  "validateCreatePrConfig config =
     (case config of
        None \<Rightarrow> Inl (TypeError ''This function requires a configuration object'')
      | Some c \<Rightarrow> require_attributes c prConfigAttributes)"

subsection \<open>Bootstrap script\<close>

definition SETUP_SSH :: string where
  "SETUP_SSH = ''mkdir -p /home/ec2-user/.ssh''"

definition CHOWN_SSH :: string where
  "CHOWN_SSH = ''chown -R ec2-user:ec2-user /home/ec2-user/.ssh && chmod -R '' @
     ''go-rwx /home/ec2-user/.ssh''"

definition OUTPUT_SSH :: string where
  "OUTPUT_SSH = ''>> /home/ec2-user/.ssh/authorized_keys''"

definition makeDockerAuthType :: "string \<Rightarrow> string" where
  "makeDockerAuthType type = ''echo ECS_ENGINE_AUTH_TYPE='' @ type @ '' >> /etc/ecs/ecs.config;''"

definition makeDockerAuthData :: "string \<Rightarrow> string" where
  "makeDockerAuthData data = ''echo ECS_ENGINE_AUTH_DATA='' @ data @ '' >> /etc/ecs/ecs.config;''"

definition makeDockerAuthCfg :: "string \<Rightarrow> error + string list" where
  "makeDockerAuthCfg c =
     (if c = [] then Inl (TypeError ''Clusternator Ec2: makeDockerAuthCfg requires a param'')
      else Inr [makeDockerAuthType ''dockercfg'', makeDockerAuthData c])"

definition makeDockerAuth :: "auth option \<Rightarrow> error + string list" where
  "makeDockerAuth a =
     (case a of
        None \<Rightarrow> Inl (TypeError (''Clusternator: Ec2: Auth should contain a '' @
                  ''username, password, and email''))
      | Some au \<Rightarrow>
          (if username au = [] \<or> password au = [] \<or> email au = []
           then Inl (TypeError (''Clusternator: Ec2: Auth should contain a '' @
                  ''username, password, and email''))
           else Inr [makeDockerAuthType ''docker'', makeDockerAuthData (json au)]))"

text \<open>
  The key-append directive is the template \<open>echo "\n${key}" ${OUTPUT_SSH}\<close>: a double
  quote (0x22), a line feed (0x0A), the key, a double quote, a space, the redirection.
\<close>

definition key_append :: "string \<Rightarrow> string" where
  "key_append key = ''echo '' @ [CHR 0x22, CHR 0x0A] @ key @ [CHR 0x22] @ '' '' @ OUTPUT_SSH"

definition processSSHKeys :: "string list \<Rightarrow> string list" where
  "processSSHKeys keys =
     (if keys = [] then [] else [SETUP_SSH] @ (map key_append keys @ [CHOWN_SSH]))"

text \<open>\<open>arr.join('\n')\<close>.\<close>

fun join_lines :: "string list \<Rightarrow> string" where
  "join_lines [] = []"
| "join_lines [l] = l"
| "join_lines (l # ls) = l @ [CHR 0x0A] @ join_lines ls"

text \<open>
  \<open>Buffer.toString('base64')\<close>: the standard alphabet, three bytes to four characters,
  padded with \<open>=\<close>. A \<^typ>\<open>char\<close> is a byte, so a string here is the UTF-8 form the buffer
  holds.
\<close>

definition b64_char :: "nat \<Rightarrow> char" where
  "b64_char i =
     (if i < 26 then char_of (65 + i)
      else if i < 52 then char_of (97 + (i - 26))
      else if i < 62 then char_of (48 + (i - 52))
      else if i = 62 then CHR ''+''
      else CHR ''/'')"

fun base64 :: "string \<Rightarrow> string" where
  "base64 [] = []"
| "base64 [a] =
     (let x = (of_char a :: nat)
      in [b64_char (x div 4), b64_char ((x mod 4) * 16), CHR ''='', CHR ''=''])"
| "base64 [a, b] =
     (let x = (of_char a :: nat); y = (of_char b :: nat)
      in [b64_char (x div 4), b64_char ((x mod 4) * 16 + y div 16),
          b64_char ((y mod 16) * 4), CHR ''=''])"
| "base64 (a # b # c # rest) =
     (let x = (of_char a :: nat); y = (of_char b :: nat); z = (of_char c :: nat)
      in [b64_char (x div 4), b64_char ((x mod 4) * 16 + y div 16),
          b64_char ((y mod 16) * 4 + z div 64), b64_char (z mod 64)] @ base64 rest)"

text \<open>The inverse, used to read a script back from its encoding.\<close>

definition b64_index :: "char \<Rightarrow> nat option" where
  "b64_index c =
     (let n = (of_char c :: nat)
      in if 65 \<le> n \<and> n \<le> 90 then Some (n - 65)
         else if 97 \<le> n \<and> n \<le> 122 then Some (n - 97 + 26)
         else if 48 \<le> n \<and> n \<le> 57 then Some (n - 48 + 52)
         else if c = CHR ''+'' then Some 62
         else if c = CHR ''/'' then Some 63
         else None)"

fun base64_decode :: "string \<Rightarrow> string option" where
  "base64_decode [] = Some []"
| "base64_decode (p # q # r # s # rest) =
     (case (b64_index p, b64_index q) of
        (Some i, Some j) \<Rightarrow>
          (if r = CHR ''='' \<and> s = CHR ''='' \<and> rest = [] then Some [char_of (i * 4 + j div 16)]
           else (case b64_index r of
                   None \<Rightarrow> None
                 | Some k \<Rightarrow>
                     (if s = CHR ''='' \<and> rest = []
                      then Some [char_of (i * 4 + j div 16), char_of ((j mod 16) * 16 + k div 4)]
                      else (case (b64_index s, base64_decode rest) of
                              (Some l, Some bytes) \<Rightarrow>
                                Some (char_of (i * 4 + j div 16) #
                                      char_of ((j mod 16) * 16 + k div 4) #
                                      char_of ((k mod 4) * 64 + l) # bytes)
                            | _ \<Rightarrow> None))))
      | _ \<Rightarrow> None)"
| "base64_decode _ = None"

definition stringArrayToNewLineBase64 :: "string list \<Rightarrow> string" where
  "stringArrayToNewLineBase64 arr = base64 (join_lines arr)"

text \<open>
  \<open>getECSContainerInstanceUserData\<close>. A \<open>TypeError\<close> of the credential helpers is thrown
  before any promise exists; a key path that cannot be read leaves the script without keys.
\<close>

definition getECSContainerInstanceUserData ::
  "string \<Rightarrow> auth option \<Rightarrow> ssh_source \<Rightarrow> error + string" where
  "getECSContainerInstanceUserData cluster au sshDataOrPath =
     (let data = [''#!/bin/bash'',
                  ''echo ECS_CLUSTER='' @ cluster @ '' >> /etc/ecs/ecs.config;''];
          authData = (case au of
                        None \<Rightarrow> Inr []
                      | Some a \<Rightarrow> (if cfg a \<noteq> [] then makeDockerAuthCfg (cfg a)
                                  else makeDockerAuth (Some a)))
      in case authData of
           Inl e \<Rightarrow> Inl e
         | Inr lines \<Rightarrow>
             (case sshDataOrPath of
                SshKeys keys \<Rightarrow>
                  Inr (stringArrayToNewLineBase64 ((data @ lines) @ processSSHKeys keys))
              | SshPath (Inr keys) \<Rightarrow>
                  Inr (stringArrayToNewLineBase64 ((data @ lines) @ processSSHKeys keys))
              | SshPath (Inl err) \<Rightarrow>
                  Inr (stringArrayToNewLineBase64 (data @ lines))))"

text \<open>
  \<open>createPr\<close> and \<open>createDeployment\<close>: validate, assemble the user data, then hand it to
  the provider (\<open>apiConfig.UserData = data\<close>, \<open>runInstances\<close>, tagging, the readiness
  poll and the final describe). That last part is the argument \<open>launch\<close>, a function of
  the user data submitted. Setting \<open>UserData\<close> on a missing \<open>apiConfig\<close> is a
  \<open>TypeError\<close>.
\<close>

definition createPr :: "config option \<Rightarrow> (string \<Rightarrow> error + 'r) \<Rightarrow> error + 'r" where
  "createPr config launch =
     (case validateCreatePrConfig config of
        Inl e \<Rightarrow> Inl e
      | Inr u \<Rightarrow>
          (case config of
             None \<Rightarrow> Inl (TypeError ''This function requires a configuration object'')
           | Some c \<Rightarrow>
               (case getECSContainerInstanceUserData (js_to_string (clusterName c)) (auth c) (sshPath c) of
                  Inl e \<Rightarrow> Inl e
                | Inr data \<Rightarrow>
                    (if apiConfig c then launch data
                     else Inl (TypeError ''Cannot set property UserData of undefined'')))))"

definition createDeployment :: "config option \<Rightarrow> (string \<Rightarrow> error + 'r) \<Rightarrow> error + 'r" where
  "createDeployment config launch =
     (case validateCreateDeploymentConfig config of
        Inl e \<Rightarrow> Inl e
      | Inr u \<Rightarrow>
          (case config of
             None \<Rightarrow> Inl (TypeError ''This function requires a configuration object'')
           | Some c \<Rightarrow>
               (case getECSContainerInstanceUserData (js_to_string (clusterName c)) (auth c) (sshPath c) of
                  Inl e \<Rightarrow> Inl e
                | Inr data \<Rightarrow>
                    (if apiConfig c then launch data
                     else Inl (TypeError ''Cannot set property UserData of undefined'')))))"

subsection \<open>The PR number the REST handlers pass on (src/api/0.1/rest/rest-api.js)\<close>

text \<open>
  \<open>sanitizePr\<close>: \<open>pr = +pr; return pr !== pr ? 0 : pr\<close>. The argument here is the number
  \<open>+pr\<close> (\<open>None\<close>: \<open>NaN\<close>, the one number that differs from itself).
\<close>

definition sanitizePr :: "int option \<Rightarrow> int" where
  "sanitizePr n = (case n of None \<Rightarrow> 0 | Some k \<Rightarrow> k)"

text \<open>
  The handlers (\<open>makePrCreate\<close>, \<open>makePrCreateFull\<close>, \<open>makePrDestroy\<close>) pass
  \<open>pr + ''\<close> on, with \<open>pr = sanitizePr(body.pr)\<close>: always a string.
\<close>

definition pr_argument :: "int option \<Rightarrow> jsval" where
  "pr_argument body_pr = JStr (js_number_to_string (sanitizePr body_pr))"

section \<open>Promises\<close>

text \<open>
  The orchestration code is a chain of \<open>Q\<close> promises over calls to the provider and to
  collaborating managers. A promise is modelled by what running it does: it takes the
  process state, issues calls (the trace, in the order the calls are issued) and settles as
  rejected (\<open>Inl\<close>) or resolved (\<open>Inr\<close>). The answer of each call is given by an
  environment, so a theorem for every environment holds for every provider behaviour.
\<close>

type_synonym ('s, 'e, 'a) promise = "'s \<Rightarrow> 's \<times> 'e list \<times> (error + 'a)"

definition resolve :: "'a \<Rightarrow> ('s, 'e, 'a) promise" where
  "resolve x = (\<lambda>s. (s, [], Inr x))"

definition reject :: "error \<Rightarrow> ('s, 'e, 'a) promise" where
  "reject err = (\<lambda>s. (s, [], Inl err))"

text \<open>A call to a collaborator: the event is issued, the outcome is the environment's.\<close>

definition call :: "'e \<Rightarrow> error + 'a \<Rightarrow> ('s, 'e, 'a) promise" where
  "call ev outcome = (\<lambda>s. (s, [ev], outcome))"

text \<open>\<open>p.then(f)\<close>: \<open>f\<close> runs on the value once \<open>p\<close> resolved; a rejection passes through.\<close>

definition then_p :: "('s, 'e, 'a) promise \<Rightarrow> ('a \<Rightarrow> ('s, 'e, 'b) promise) \<Rightarrow> ('s, 'e, 'b) promise" where
  "then_p p f =
     (\<lambda>s. case p s of
            (s1, t1, Inl err) \<Rightarrow> (s1, t1, Inl err)
          | (s1, t1, Inr x) \<Rightarrow> (case f x s1 of (s2, t2, r) \<Rightarrow> (s2, t1 @ t2, r)))"

text \<open>\<open>p.fail(h)\<close>: \<open>h\<close> runs on the error once \<open>p\<close> rejected; a value passes through.\<close>

definition fail_p :: "('s, 'e, 'a) promise \<Rightarrow> (error \<Rightarrow> ('s, 'e, 'a) promise) \<Rightarrow> ('s, 'e, 'a) promise" where
  "fail_p p h =
     (\<lambda>s. case p s of
            (s1, t1, Inl err) \<Rightarrow> (case h err s1 of (s2, t2, r) \<Rightarrow> (s2, t1 @ t2, r))
          | (s1, t1, Inr x) \<Rightarrow> (s1, t1, Inr x))"

text \<open>\<open>p.then(f, g)\<close>: \<open>f\<close> on the value or \<open>g\<close> on the error, never both.\<close>

definition then2_p ::
  "('s, 'e, 'a) promise \<Rightarrow> ('a \<Rightarrow> ('s, 'e, 'b) promise) \<Rightarrow> (error \<Rightarrow> ('s, 'e, 'b) promise) \<Rightarrow>
   ('s, 'e, 'b) promise" where
  "then2_p p f g =
     (\<lambda>s. case p s of
            (s1, t1, Inl err) \<Rightarrow> (case g err s1 of (s2, t2, r) \<Rightarrow> (s2, t1 @ t2, r))
          | (s1, t1, Inr x) \<Rightarrow> (case f x s1 of (s2, t2, r) \<Rightarrow> (s2, t1 @ t2, r)))"

text \<open>
  \<open>Q.all([p, q])\<close>: both are issued, in the order of the array; the result is rejected
  when one of them is (with the error of the first in the array), and carries both values
  otherwise.
\<close>

definition all2 :: "('s, 'e, 'a) promise \<Rightarrow> ('s, 'e, 'b) promise \<Rightarrow> ('s, 'e, 'a \<times> 'b) promise" where
  "all2 p q =
     (\<lambda>s. case p s of
            (s1, t1, r1) \<Rightarrow>
              (case q s1 of
                 (s2, t2, r2) \<Rightarrow>
                   (s2, t1 @ t2,
                    (case r1 of
                       Inl err \<Rightarrow> Inl err
                     | Inr x \<Rightarrow> (case r2 of Inl err \<Rightarrow> Inl err | Inr y \<Rightarrow> Inr (x, y))))))"

fun all_list :: "('s, 'e, 'a) promise list \<Rightarrow> ('s, 'e, 'a list) promise" where
  "all_list [] = resolve []"
| "all_list (p # ps) = then_p (all2 p (all_list ps)) (\<lambda>(x, xs). resolve (x # xs))"

text \<open>
  A function that may throw before it returns its promise gives \<open>Inl\<close> for the throw.
  Called as the result of a \<open>then\<close> handler, the throw rejects the handler's promise.
\<close>

definition invoke :: "error + ('s, 'e, 'a) promise \<Rightarrow> ('s, 'e, 'a) promise" where
  "invoke r = (case r of Inl err \<Rightarrow> reject err | Inr p \<Rightarrow> p)"

definition trace_of :: "'s \<times> 'e list \<times> (error + 'a) \<Rightarrow> 'e list" where
  "trace_of r = fst (snd r)"

definition result_of :: "'s \<times> 'e list \<times> (error + 'a) \<Rightarrow> error + 'a" where
  "result_of r = snd (snd r)"

section \<open>Deployment orchestration (src/aws/deploymentManager.js)\<close>

text \<open>Instance descriptions as \<open>describeInstances\<close> returns them, by reservation.\<close>

record ec2_instance =
  InstanceId :: string
  InstanceTags :: "(string \<times> string) list"

record reservation =
  Instances :: "ec2_instance list"

record elb_desc =
  elb_id :: string
  elb_dns :: string

text \<open>The calls the deployment manager issues to its collaborators.\<close>

datatype dm_event =
    EvDescribeDeployment string string
  | EvDestroyDeploymentARecord string string string
  | EvListContainers string
  | EvDeregister string string
  | EvStopInstances "string list"
  | EvTerminateInstances "string list"
  | EvWaitForTermination "string list"
  | EvElbDestroyDeployment string string
  | EvTaskDestroy string
  | EvClusterDestroy string
  | EvSgDestroyDeployment string string
  | EvSubnetDescribeProject string
  | EvSgCreateDeployment string string string
  | EvClusterCreate string
  | EvEc2CreateDeployment config
  | EvElbCreateDeployment string string string string
  | EvCreateDeploymentCNameRecord string string string
  | EvRegisterInstances string "string list"
  | EvConfigureHealthCheck string
  | EvTaskCreate string

text \<open>
  The collaborators are not part of these sources (\<open>clusterManager\<close>,
  \<open>route53Manager\<close>, \<open>securityGroupManager\<close>, \<open>taskServiceManager\<close>, \<open>elb\<close>,
  \<open>common\<close>, \<open>resourceIdentifier\<close>, \<open>util\<close>) or are the provider itself: the
  environment gives what each of their calls answers.
\<close>

record dm_env =
  rid_generateRID :: "string \<Rightarrow> string \<Rightarrow> string \<Rightarrow> string"
  ec2mgr_describeDeployment :: "error + reservation list"
  common_findIpFromEc2Describe :: "reservation list \<Rightarrow> error + string"
  common_throwInvalidPidDeploymentTag :: error
  route53_destroyDeploymentARecord :: "error + unit"
  cluster_listContainers :: "error + string list"
  cluster_deregister :: "string \<Rightarrow> error + unit"
  ec2_stopInstances :: "error + unit"
  ec2_terminateInstances :: "error + unit"
  util_waitFor_terminated :: "error + unit"
  elb_destroyDeployment :: "error + unit"
  task_destroy :: "error + unit"
  cluster_destroy :: "error + unit"
  securityGroup_destroyDeployment :: "error + unit"
  subnet_describeProject :: "error + string list"
  securityGroup_createDeployment :: "error + string"
  cluster_create :: "error + unit"
  ssh_public_keys :: "error + string list"
  ec2_launch :: "string \<Rightarrow> error + reservation list"
  elb_createDeployment :: "error + elb_desc"
  route53_createDeploymentCNameRecord :: "error + string"
  elb_registerInstances :: "error + unit"
  elb_configureHealthCheck :: "error + unit"
  task_create :: "error + unit"

subsection \<open>Instance termination (src/aws/ec2Manager.js)\<close>

definition stopAndTerminate :: "dm_env \<Rightarrow> string list \<Rightarrow> (unit, dm_event, unit) promise" where
  "stopAndTerminate env instanceIds =
     then_p
       (then_p (call (EvStopInstances instanceIds) (ec2_stopInstances env))
          (\<lambda>u. call (EvTerminateInstances instanceIds) (ec2_terminateInstances env)))
       (\<lambda>u. call (EvWaitForTermination instanceIds) (util_waitFor_terminated env))"

text \<open>
  \<open>ec2Manager.destroyDeployment\<close>: a falsy \<open>pid\<close> or \<open>deployment\<close> (the empty string
  here) throws before a promise is made.
\<close>

definition ec2mgr_destroyDeployment ::
  "dm_env \<Rightarrow> string \<Rightarrow> string \<Rightarrow> error + (unit, dm_event, unit) promise" where
  "ec2mgr_destroyDeployment env p d =
     (if p = [] \<or> d = [] then Inl (TypeError ''ec2 destroy requires pid, and pr'')
      else Inr
        (then_p (call (EvDescribeDeployment p d) (ec2mgr_describeDeployment env))
           (\<lambda>list.
              case list of
                [] \<Rightarrow> reject (common_throwInvalidPidDeploymentTag env)
              | r # rs \<Rightarrow> stopAndTerminate env (map InstanceId (Instances r)))))"

subsection \<open>Create\<close>

definition createEc2 ::
  "dm_env \<Rightarrow> string \<Rightarrow> string \<Rightarrow> string \<Rightarrow> string \<Rightarrow> string \<Rightarrow> string \<Rightarrow>
   error + (unit, dm_event, reservation list) promise" where
  "createEc2 env groupId cluster p d subnet sha =
     (let c = \<lparr>clusterName = JStr cluster, sgId = JStr groupId, subnetId = JStr subnet,
                pid = JStr p, pr = JUndefined, deployment = JStr d, auth = None,
                sshPath = SshPath (ssh_public_keys env), apiConfig = True\<rparr>
      in case validateCreateDeploymentConfig (Some c) of
           Inl err \<Rightarrow> Inl err
         | Inr u \<Rightarrow> Inr (call (EvEc2CreateDeployment c) (createDeployment (Some c) (ec2_launch env))))"

definition getIdFromEc2Results :: "reservation list \<Rightarrow> error + string" where
  "getIdFromEc2Results results =
     (case results of
        [] \<Rightarrow> Inl (Error ''createPR: unexpected EC2 create results'')
      | r # rs \<Rightarrow> Inr (foldl (\<lambda>instanceId inst. InstanceId inst) [] (Instances r)))"

text \<open>
  \<open>createElbEc2\<close>. The three wiring calls are the elements of an array: the CNAME call is
  issued first, then \<open>getIdFromEc2Results\<close> is evaluated for the second element and may
  throw, which rejects the handler before \<open>.fail\<close> is attached. The \<open>.fail\<close> covers the
  three wiring promises only.
\<close>

definition createElbEc2 ::
  "dm_env \<Rightarrow> string \<Rightarrow> string \<Rightarrow> string \<Rightarrow> string \<Rightarrow> string \<Rightarrow> string \<Rightarrow>
   error + (unit, dm_event, string option) promise" where
  "createElbEc2 env groupId cluster p d subnet sha =
     (case createEc2 env groupId cluster p d subnet sha of
        Inl err \<Rightarrow> Inl err
      | Inr ec2_promise \<Rightarrow>
          Inr (then_p
            (all2 ec2_promise
               (call (EvElbCreateDeployment p d subnet groupId) (elb_createDeployment env)))
            (\<lambda>(ec2_results, lb).
               case getIdFromEc2Results ec2_results of
                 Inl err \<Rightarrow>
                   then_p (call (EvCreateDeploymentCNameRecord p d (elb_dns lb)) (Inr ()))
                     (\<lambda>u. reject err)
               | Inr instanceId \<Rightarrow>
                   fail_p
                     (then_p
                        (all2 (call (EvCreateDeploymentCNameRecord p d (elb_dns lb))
                                 (route53_createDeploymentCNameRecord env))
                           (all2 (call (EvRegisterInstances (elb_id lb) [instanceId])
                                    (elb_registerInstances env))
                              (call (EvConfigureHealthCheck (elb_id lb))
                                 (elb_configureHealthCheck env))))
                        (\<lambda>(url, rest). resolve (Some url)))
                     (\<lambda>err. resolve None))))"

definition createCluster ::
  "dm_env \<Rightarrow> string \<Rightarrow> string \<Rightarrow> string \<Rightarrow> string \<Rightarrow> (unit, dm_event, string option) promise" where
  "createCluster env subnet p d sha =
     (let cluster = rid_generateRID env p d sha
      in then_p
           (then_p
              (all2 (call (EvSgCreateDeployment p d sha) (securityGroup_createDeployment env))
                 (call (EvClusterCreate cluster) (cluster_create env)))
              (\<lambda>(groupId, u). invoke (createElbEc2 env groupId cluster p d subnet sha)))
           (\<lambda>urlDesc. then_p (call (EvTaskCreate cluster) (task_create env)) (\<lambda>u. resolve urlDesc)))"

text \<open>
  \<open>create\<close> starts with \<open>subnet.describeProject(projectId)\<close>, where \<open>subnet\<close> is the
  object \<open>getSubnetManager\<close> returns. That object has no property \<open>describeProject\<close>
  (see \<open>subnetManager_exports\<close>), so the call throws a \<open>TypeError\<close> before any promise is
  made and before anything is issued. The rest of the body is what would follow a lookup
  that answers (\<open>subnet_describeProject\<close>: the ids of the project's subnets).
\<close>

definition dm_create ::
  "dm_env \<Rightarrow> string \<Rightarrow> string \<Rightarrow> string \<Rightarrow> error + (unit, dm_event, string option) promise" where
  "dm_create env projectId d sha =
     (if ''describeProject'' \<in> set subnetManager_exports
      then Inr
        (then_p (call (EvSubnetDescribeProject projectId) (subnet_describeProject env))
           (\<lambda>list.
              case list of
                [] \<Rightarrow> reject (Error (''Create Deployment failed, no subnet found for Project: '' @
                         projectId @ '' Deployment '' @ d))
              | subnet # rest \<Rightarrow> createCluster env subnet projectId d sha))
      else Inl (TypeError ''subnet.describeProject is not a function''))"

subsection \<open>Destroy\<close>

definition destroyEc2 ::
  "dm_env \<Rightarrow> string \<Rightarrow> string \<Rightarrow> string \<Rightarrow> error + (unit, dm_event, unit) promise" where
  "destroyEc2 env projectId d cluster =
     (if cluster = [] then Inl (Error ''destroyEc2: requires valid clusterName'')
      else Inr
        (then_p (call (EvListContainers cluster) (cluster_listContainers env))
           (\<lambda>result.
              then_p
                (all_list (map (\<lambda>arn. call (EvDeregister arn cluster) (cluster_deregister env arn)) result))
                (\<lambda>deregistered.
                   case ec2mgr_destroyDeployment env projectId d of
                     Inl err \<Rightarrow> reject err
                   | Inr p \<Rightarrow> fail_p p (\<lambda>err. resolve ())))))"

definition destroyRoutes :: "dm_env \<Rightarrow> string \<Rightarrow> string \<Rightarrow> (unit, dm_event, unit) promise" where
  "destroyRoutes env projectId d =
     then_p (call (EvDescribeDeployment projectId d) (ec2mgr_describeDeployment env))
       (\<lambda>results.
          case common_findIpFromEc2Describe env results of
            Inl err \<Rightarrow> reject err
          | Inr ip \<Rightarrow>
              call (EvDestroyDeploymentARecord projectId d ip) (route53_destroyDeploymentARecord env))"

definition destroyElb :: "dm_env \<Rightarrow> string \<Rightarrow> string \<Rightarrow> (unit, dm_event, unit) promise" where
  "destroyElb env projectId d =
     fail_p (call (EvElbDestroyDeployment projectId d) (elb_destroyDeployment env))
       (\<lambda>err. resolve ())"

definition dm_destroy ::
  "dm_env \<Rightarrow> string \<Rightarrow> string \<Rightarrow> string \<Rightarrow> (unit, dm_event, unit) promise" where
  "dm_destroy env projectId d sha =
     (let cluster = rid_generateRID env projectId d sha
      in then_p
           (then_p
              (then_p
                 (then_p
                    (then2_p (destroyRoutes env projectId d)
                       (\<lambda>u. invoke (destroyEc2 env projectId d cluster))
                       (\<lambda>err. invoke (destroyEc2 env projectId d cluster)))
                    (\<lambda>u. destroyElb env projectId d))
                 (\<lambda>r. fail_p (call (EvTaskDestroy cluster) (task_destroy env)) (\<lambda>err. resolve ())))
              (\<lambda>u. fail_p (call (EvClusterDestroy cluster) (cluster_destroy env)) (\<lambda>err. resolve ())))
           (\<lambda>u. fail_p (call (EvSgDestroyDeployment projectId d) (securityGroup_destroyDeployment env))
                  (\<lambda>err. resolve ())))"

subsection \<open>Two providers\<close>

text \<open>
  A provider in which every call succeeds: one running instance \<open>i-1\<close> with a public
  address, one registered container instance, and resource identifiers of the form
  \<open>project--deployment--revision\<close>.
\<close>

definition provider_ok :: dm_env where
  "provider_ok =
     \<lparr>rid_generateRID = (\<lambda>p d sha. p @ ''--'' @ d @ ''--'' @ sha),
      ec2mgr_describeDeployment = Inr [\<lparr>Instances = [\<lparr>InstanceId = ''i-1'', InstanceTags = []\<rparr>]\<rparr>],
      common_findIpFromEc2Describe =
        (\<lambda>results. case results of [] \<Rightarrow> Inl (Error ''no address'') | r # rs \<Rightarrow> Inr ''1.2.3.4''),
      common_throwInvalidPidDeploymentTag = Error ''no tagged instance'',
      route53_destroyDeploymentARecord = Inr (),
      cluster_listContainers = Inr [''arn-1''],
      cluster_deregister = (\<lambda>arn. Inr ()),
      ec2_stopInstances = Inr (),
      ec2_terminateInstances = Inr (),
      util_waitFor_terminated = Inr (),
      elb_destroyDeployment = Inr (),
      task_destroy = Inr (),
      cluster_destroy = Inr (),
      securityGroup_destroyDeployment = Inr (),
      subnet_describeProject = Inr [''subnet-1''],
      securityGroup_createDeployment = Inr ''sg-1'',
      cluster_create = Inr (),
      ssh_public_keys = Inr [],
      ec2_launch = (\<lambda>userData. Inr [\<lparr>Instances = [\<lparr>InstanceId = ''i-1'', InstanceTags = []\<rparr>]\<rparr>]),
      elb_createDeployment = Inr \<lparr>elb_id = ''elb-1'', elb_dns = ''elb-1.example.com''\<rparr>,
      route53_createDeploymentCNameRecord = Inr ''beta.proj.example.com'',
      elb_registerInstances = Inr (),
      elb_configureHealthCheck = Inr (),
      task_create = Inr ()\<rparr>"

text \<open>
  The same provider once a destroy has completed: no instance carries the deployment's
  tags, and the cluster, the load balancer, the task definition and the security group are
  gone, so the calls that name them are rejected.
\<close>

definition provider_after_destroy :: dm_env where
  "provider_after_destroy =
     provider_ok
       \<lparr>ec2mgr_describeDeployment := Inr [],
        cluster_listContainers := Inl (Rejected ''ClusterNotFoundException''),
        elb_destroyDeployment := Inl (Rejected ''LoadBalancerNotFound''),
        task_destroy := Inl (Rejected ''ClusterNotFoundException''),
        cluster_destroy := Inl (Rejected ''ClusterNotFoundException''),
        securityGroup_destroyDeployment := Inl (Rejected ''InvalidGroup.NotFound'')\<rparr>"

section \<open>Project facade (src/aws/projectManager.js)\<close>

text \<open>
  The tag keys come from \<open>constants\<close>, which is not part of these sources: they are a
  parameter of everything that reads tags.
\<close>

record constants =
  PROJECT_TAG :: string
  PR_TAG :: string
  DEPLOYMENT_TAG :: string
  EXPIRES_TAG :: string

text \<open>
  The process-wide context \<open>STATE\<close>: the network id and the zone id, \<open>null\<close> (the empty
  string here) until \<open>initState\<close> has run. The managers kept beside them are built from
  the two ids and have no state of their own.
\<close>

record STATE =
  vpcId :: string
  zoneId :: string

datatype pm_event =
    EvVpcFindProject
  | EvR53FindId
  | EvEc2DescribeProject string
  | EvSubnetDestroy string
  | EvAclDestroy string
  | EvSubnetFindProject string
  | EvRouteFindDefault
  | EvAclCreate string
  | EvEcrCreate string
  | EvSubnetCreate string string string
  | EvIamCreateProjectUser string string
  | EvEc2MgrDescribeProject string
  | EvEc2MgrDescribe
  | EvPullRequestDestroy "string option" string
  | EvPullRequestCreate string string

text \<open>
  What the collaborators answer. \<open>ec2_describeProject\<close> is the call \<open>ec2.describeProject\<close>
  that \<open>destroy\<close> makes on the client object it was constructed with;
  \<open>pullRequest_destroy\<close> and \<open>pullRequest_create\<close> are the destroy and create
  sequences of \<open>prManager\<close>.
\<close>

record pm_env =
  vpc_findProject :: "error + string"
  r53_findId :: "error + string"
  ec2_describeProject :: "string \<Rightarrow> error + reservation list"
  subnet_destroy :: "string \<Rightarrow> error + unit"
  acl_destroy :: "string \<Rightarrow> error + unit"
  subnet_findProject :: "string \<Rightarrow> error + unit"
  route_findDefault :: "error + string"
  acl_create :: "string \<Rightarrow> error + string"
  ecr_create :: "string \<Rightarrow> error + string \<times> string"
  subnet_create :: "string \<Rightarrow> string \<Rightarrow> string \<Rightarrow> error + unit"
  iam_createProjectUser :: "string \<Rightarrow> string \<Rightarrow> error + string"
  ec2Mgr_describeProject :: "string \<Rightarrow> error + reservation list"
  ec2Mgr_describe :: "error + reservation list"
  pullRequest_destroy :: "string option \<Rightarrow> string \<Rightarrow> error + unit"
  pullRequest_create :: "string \<Rightarrow> string \<Rightarrow> error + string"

definition initState :: "pm_env \<Rightarrow> (STATE, pm_event, unit) promise" where
  "initState env =
     then_p (all2 (call EvVpcFindProject (vpc_findProject env)) (call EvR53FindId (r53_findId env)))
       (\<lambda>(v, z) s. (s\<lparr>vpcId := v, zoneId := z\<rparr>, [], Inr ()))"

definition state :: "pm_env \<Rightarrow> (STATE, pm_event, unit) promise" where
  "state env = (\<lambda>s. if vpcId s = [] \<or> zoneId s = [] then initState env s else resolve () s)"

definition pm_destroy :: "pm_env \<Rightarrow> string \<Rightarrow> (STATE, pm_event, unit) promise" where
  "pm_destroy env projectId =
     then_p (state env)
       (\<lambda>s. then_p (call (EvEc2DescribeProject projectId) (ec2_describeProject env projectId))
          (\<lambda>list.
             if list \<noteq> []
             then reject (Error (''ProjectManager: Cannot destroy project while '' @
                    ''open pull requests exist''))
             else then_p (call (EvSubnetDestroy projectId) (subnet_destroy env projectId))
                    (\<lambda>u. call (EvAclDestroy projectId) (acl_destroy env projectId))))"

text \<open>\<open>create\<close>: the value it resolves to (credentials and registry) is not kept here.\<close>

definition pm_create :: "pm_env \<Rightarrow> string \<Rightarrow> (STATE, pm_event, unit) promise" where
  "pm_create env projectId =
     then_p (state env)
       (\<lambda>s. then_p
          (all2 (call EvRouteFindDefault (route_findDefault env))
             (all2 (call (EvAclCreate projectId) (acl_create env projectId))
                (call (EvEcrCreate projectId) (ecr_create env projectId))))
          (\<lambda>(routeId, aclId, repoArn, registryId).
             then_p
               (all2 (call (EvSubnetCreate projectId routeId aclId)
                        (subnet_create env projectId routeId aclId))
                  (call (EvIamCreateProjectUser projectId repoArn)
                     (iam_createProjectUser env projectId repoArn)))
               (\<lambda>r. resolve ())))"

definition findOrCreateProject :: "pm_env \<Rightarrow> string \<Rightarrow> (STATE, pm_event, unit) promise" where
  "findOrCreateProject env projectId =
     then_p (state env)
       (\<lambda>s. fail_p (call (EvSubnetFindProject projectId) (subnet_findProject env projectId))
          (\<lambda>err. then_p (pm_create env projectId) (\<lambda>sDesc. resolve sDesc)))"

definition listDeployments :: "pm_env \<Rightarrow> string \<Rightarrow> (STATE, pm_event, reservation list) promise" where
  "listDeployments env projectId =
     then_p (state env)
       (\<lambda>s. call (EvEc2MgrDescribeProject projectId) (ec2Mgr_describeProject env projectId))"

text \<open>
  A tag list as an object: \<open>memo[t.Key] = t.Value\<close> (and \<open>R.assoc\<close>) for each tag in turn,
  so that the last tag of a key wins and a key that is not there reads \<open>undefined\<close>.
\<close>

definition tags_object :: "(string \<times> string) list \<Rightarrow> (string \<rightharpoonup> string)" where
  "tags_object tags = foldl (\<lambda>memo (k, v). memo(k \<mapsto> v)) Map.empty tags"

definition getTagsFromInstances :: "ec2_instance list \<Rightarrow> (string \<rightharpoonup> string) list" where
  "getTagsFromInstances insts = map (\<lambda>inst. tags_object (InstanceTags inst)) insts"

text \<open>The handler of \<open>prExists\<close>: is \<open>pr\<close> among the PR tags of the project's instances?\<close>

definition pr_tagged :: "constants \<Rightarrow> reservation list \<Rightarrow> string \<Rightarrow> bool" where
  "pr_tagged K prs pr_no =
     (let insts = concat (map (\<lambda>d. getTagsFromInstances (Instances d)) prs);
          values = map (\<lambda>obj. obj (PR_TAG K)) insts
      in Some pr_no \<in> set values)"

definition prExists :: "constants \<Rightarrow> pm_env \<Rightarrow> string \<Rightarrow> string \<Rightarrow> (STATE, pm_event, bool) promise" where
  "prExists K env projectId pr_no =
     then_p (listDeployments env projectId) (\<lambda>prs. resolve (pr_tagged K prs pr_no))"

text \<open>
  \<open>destroyPR(projectId, pr)\<close> passes \<open>pr + ''\<close> on; both arguments are \<open>undefined\<close>
  (\<open>None\<close>) when the sweep reads them from an instance without the tag.
\<close>

definition destroyPR :: "pm_env \<Rightarrow> string option \<Rightarrow> string option \<Rightarrow> (STATE, pm_event, unit) promise" where
  "destroyPR env projectId pr_no =
     then_p (state env)
       (\<lambda>s. let pr_string = (case pr_no of None \<Rightarrow> ''undefined'' | Some n \<Rightarrow> n)
             in call (EvPullRequestDestroy projectId pr_string)
                  (pullRequest_destroy env projectId pr_string))"

definition createPR :: "constants \<Rightarrow> pm_env \<Rightarrow> string \<Rightarrow> string \<Rightarrow> (STATE, pm_event, string) promise" where
  "createPR K env projectId pr_no =
     then_p (state env)
       (\<lambda>s. then_p
          (then_p (findOrCreateProject env projectId)
             (\<lambda>u. then_p (prExists K env projectId pr_no)
                (\<lambda>exists. if \<not> exists then resolve () else destroyPR env (Some projectId) (Some pr_no))))
          (\<lambda>u. call (EvPullRequestCreate projectId pr_no) (pullRequest_create env projectId pr_no)))"

subsection \<open>Expiry sweep\<close>

definition extractKeys :: "reservation list \<Rightarrow> (string \<rightharpoonup> string) list" where
  "extractKeys d = map tags_object (concat (map (\<lambda>r. map InstanceTags (Instances r)) d))"

text \<open>
  \<open>R.allPass([R.compose(R.gt(now), R.prop(EXPIRES_TAG)), R.prop(PR_TAG)])\<close>: \<open>now > expires\<close>
  with the tag's string read as a number (false for a missing tag), and a truthy PR tag
  (there, and not the empty string).
\<close>

definition isDeadPR :: "constants \<Rightarrow> int \<Rightarrow> (string \<rightharpoonup> string) \<Rightarrow> bool" where
  "isDeadPR K now obj =
     (js_gt (Some now) (js_to_number_opt (obj (EXPIRES_TAG K)))
      \<and> (case obj (PR_TAG K) of None \<Rightarrow> False | Some n \<Rightarrow> n \<noteq> []))"

definition extractDeadPRs :: "constants \<Rightarrow> int \<Rightarrow> (string \<rightharpoonup> string) list \<Rightarrow> (string \<rightharpoonup> string) list" where
  "extractDeadPRs K now keys = filter (isDeadPR K now) keys"

definition mapDestroy ::
  "constants \<Rightarrow> pm_env \<Rightarrow> (string \<rightharpoonup> string) list \<Rightarrow> (STATE, pm_event, unit) promise list" where
  "mapDestroy K env deadPRs = map (\<lambda>v. destroyPR env (v (PROJECT_TAG K)) (v (PR_TAG K))) deadPRs"

definition destroyExpiredPRs :: "constants \<Rightarrow> pm_env \<Rightarrow> int \<Rightarrow> (STATE, pm_event, unit list) promise" where
  "destroyExpiredPRs K env now =
     then_p (state env)
       (\<lambda>s. then_p (call EvEc2MgrDescribe (ec2Mgr_describe env))
          (\<lambda>d. let keys = extractKeys d;
                    deadPRs = extractDeadPRs K now keys
                in all_list (mapDestroy K env deadPRs)))"

subsection \<open>Reading tag sets\<close>

text \<open>
  An instance belongs to an expired PR environment: it carries a PR tag and an expiry
  timestamp strictly less than the current time.
\<close>

definition expired_pr :: "constants \<Rightarrow> int \<Rightarrow> (string \<rightharpoonup> string) \<Rightarrow> bool" where
  "expired_pr K now obj =
     (obj (PR_TAG K) \<noteq> None
      \<and> (case obj (EXPIRES_TAG K) of
            None \<Rightarrow> False
          | Some e \<Rightarrow> (case js_to_number e of None \<Rightarrow> False | Some n \<Rightarrow> n < now)))"

text \<open>
  Tags as \<open>tagPrInstance\<close> writes them: a PR tag is not empty, an expiry tag is a decimal
  numeral (epoch milliseconds).
\<close>

definition written_tags :: "constants \<Rightarrow> (string \<rightharpoonup> string) \<Rightarrow> bool" where
  "written_tags K obj =
     ((case obj (PR_TAG K) of None \<Rightarrow> True | Some n \<Rightarrow> n \<noteq> [])
      \<and> (case obj (EXPIRES_TAG K) of None \<Rightarrow> True | Some e \<Rightarrow> all_digits e))"

text \<open>
  \<open>tagPrInstance\<close> (src/aws/ec2Manager.js): the tags of a PR instance created at \<open>now\<close>
  with the configured time to live (\<open>config.prTTL || 259200000\<close>). The managed marker's
  key is the argument \<open>marker\<close>.
\<close>

definition tagPrInstance :: "constants \<Rightarrow> string \<Rightarrow> jsval \<Rightarrow> jsval \<Rightarrow> int \<Rightarrow> int \<Rightarrow> (string \<times> string) list" where
  "tagPrInstance K marker prv pidv now prTTL =
     [(marker, ''true''),
      (PR_TAG K, js_to_string prv),
      (PROJECT_TAG K, js_to_string pidv),
      (EXPIRES_TAG K, js_number_to_string (now + (if prTTL \<noteq> 0 then prTTL else 259200000)))]"

text \<open>The context has been initialised: \<open>state()\<close> resolves without calling \<open>initState\<close>.\<close>

definition ready :: "STATE \<Rightarrow> bool" where
  "ready st = (vpcId st \<noteq> [] \<and> zoneId st \<noteq> [])"

subsection \<open>A sample account\<close>

text \<open>
  Three instances of project \<open>proj\<close>, seen at time 500000000: PR 7 expired 1000 ms ago,
  PR 8 expires in 100000 ms, and the deployment \<open>beta\<close> has no PR tag and no expiry.
\<close>

definition sample_keys :: constants where
  "sample_keys =
     \<lparr>PROJECT_TAG = ''project'', PR_TAG = ''pr'', DEPLOYMENT_TAG = ''deployment'',
      EXPIRES_TAG = ''expires''\<rparr>"

definition sample_reservations :: "reservation list" where
  "sample_reservations =
     [\<lparr>Instances = [\<lparr>InstanceId = ''i-7'',
         InstanceTags = tagPrInstance sample_keys ''managed'' (JStr ''7'') (JStr ''proj'') 240799000 0\<rparr>]\<rparr>,
      \<lparr>Instances = [\<lparr>InstanceId = ''i-8'',
         InstanceTags = tagPrInstance sample_keys ''managed'' (JStr ''8'') (JStr ''proj'') 240900000 0\<rparr>]\<rparr>,
      \<lparr>Instances = [\<lparr>InstanceId = ''i-beta'',
         InstanceTags = [(''managed'', ''true''), (''deployment'', ''beta''), (''project'', ''proj'')]\<rparr>]\<rparr>]"

definition sample_account :: pm_env where
  "sample_account =
     \<lparr>vpc_findProject = Inr ''vpc-1'',
      r53_findId = Inr ''zone-1'',
      ec2_describeProject = (\<lambda>p. Inr sample_reservations),
      subnet_destroy = (\<lambda>p. Inr ()),
      acl_destroy = (\<lambda>p. Inr ()),
      subnet_findProject = (\<lambda>p. Inr ()),
      route_findDefault = Inr ''rtb-1'',
      acl_create = (\<lambda>p. Inr ''acl-1''),
      ecr_create = (\<lambda>p. Inr (''arn:repo'', ''registry-1'')),
      subnet_create = (\<lambda>p routeId aclId. Inr ()),
      iam_createProjectUser = (\<lambda>p repoArn. Inr ''credentials''),
      ec2Mgr_describeProject = (\<lambda>p. Inr sample_reservations),
      ec2Mgr_describe = Inr sample_reservations,
      pullRequest_destroy = (\<lambda>p n. Inr ()),
      pullRequest_create = (\<lambda>p n. Inr ''pr-7.proj.example.com'')\<rparr>"

definition initialised :: STATE where
  "initialised = \<lparr>vpcId = ''vpc-1'', zoneId = ''zone-1''\<rparr>"

section \<open>Properties of the address allocator\<close>

lemma digit_val_digit_char: "0 \<le> d \<Longrightarrow> d < 10 \<Longrightarrow> digit_val (digit_char d) = Some d"
  by (simp add: digit_val_def digit_char_def Let_def of_char_of)

lemma digit_char_not_dot: "0 \<le> d \<Longrightarrow> d < 10 \<Longrightarrow> digit_char d \<noteq> CHR ''.''"
proof
  assume d: "0 \<le> d" "d < 10" and "digit_char d = CHR ''.''"
  then have "digit_val (digit_char d) = digit_val CHR ''.''" by simp
  with d show False by (simp add: digit_val_digit_char) (simp add: digit_val_def)
qed

lemma parse_digits_append:
  "parse_digits acc (xs @ ys) =
     (case parse_digits acc xs of None \<Rightarrow> None | Some a \<Rightarrow> parse_digits a ys)"
  by (induction xs arbitrary: acc) (auto split: option.splits)

lemma parse_dec_digits: "0 \<le> n \<Longrightarrow> parse_digits 0 (dec_digits n) = Some n"
proof (induction n rule: dec_digits.induct)
  case (1 n)
  show ?case
  proof (cases "n < 10")
    case True
    with 1(2) show ?thesis
      by (simp add: dec_digits.simps [of n] digit_val_digit_char)
  next
    case False
    with 1 have "parse_digits 0 (dec_digits (n div 10)) = Some (n div 10)" by simp
    moreover have "0 \<le> n mod 10" "n mod 10 < 10" by simp_all
    ultimately show ?thesis
      using False
      by (simp add: dec_digits.simps [of n] parse_digits_append digit_val_digit_char)
  qed
qed

lemma dec_digits_chars:
  "0 \<le> n \<Longrightarrow> c \<in> set (dec_digits n) \<Longrightarrow> \<exists>d. 0 \<le> d \<and> d < 10 \<and> c = digit_char d"
proof (induction n rule: dec_digits.induct)
  case (1 n)
  show ?case
  proof (cases "n < 10")
    case True
    with 1(2,3) show ?thesis by (auto simp: dec_digits.simps [of n])
  next
    case False
    with 1(3) have "c \<in> set (dec_digits (n div 10)) \<or> c = digit_char (n mod 10)"
      by (auto simp: dec_digits.simps [of n])
    then show ?thesis
    proof
      assume "c \<in> set (dec_digits (n div 10))"
      with 1(1,2) False show ?thesis by simp
    next
      assume "c = digit_char (n mod 10)"
      moreover have "0 \<le> n mod 10" "n mod 10 < 10" by simp_all
      ultimately show ?thesis by blast
    qed
  qed
qed

lemma dec_digits_nonempty: "dec_digits n \<noteq> []"
  by (subst dec_digits.simps) simp

lemma dec_digits_no_dot: "0 \<le> n \<Longrightarrow> CHR ''.'' \<notin> set (dec_digits n)"
proof
  assume "0 \<le> n" and "CHR ''.'' \<in> set (dec_digits n)"
  then obtain d where "0 \<le> d" "d < 10" "CHR ''.'' = digit_char d"
    using dec_digits_chars by blast
  then show False using digit_char_not_dot [of d] by simp
qed

lemma all_digits_dec_digits: "0 \<le> n \<Longrightarrow> all_digits (dec_digits n)"
proof -
  assume n: "0 \<le> n"
  have "digit_val c \<noteq> None" if "c \<in> set (dec_digits n)" for c
  proof -
    from n that obtain d where "0 \<le> d" "d < 10" "c = digit_char d"
      using dec_digits_chars by blast
    then show ?thesis by (simp add: digit_val_digit_char)
  qed
  then show ?thesis
    by (simp add: all_digits_def dec_digits_nonempty list_all_iff)
qed

lemma split_dot_nonempty: "split_dot s \<noteq> []"
  by (induction s) (auto split: list.splits)

lemma split_dot_no_dot: "CHR ''.'' \<notin> set s \<Longrightarrow> split_dot s = [s]"
  by (induction s) auto

lemma split_dot_append_dot: "split_dot (a @ CHR ''.'' # b) = split_dot a @ split_dot b"
  by (induction a) (auto split: list.splits simp: split_dot_nonempty)

lemma split_dot_block:
  assumes "0 \<le> n"
  shows "split_dot (p @ CHR ''.'' # dec_digits n @ ''.0/24'') = split_dot p @ [dec_digits n, ''0/24'']"
proof -
  have "split_dot (dec_digits n @ ''.0/24'') = split_dot (dec_digits n) @ split_dot ''0/24''"
    using split_dot_append_dot [of "dec_digits n" "''0/24''"] by simp
  also have "\<dots> = [dec_digits n, ''0/24'']"
    using assms by (simp add: split_dot_no_dot dec_digits_no_dot)
  finally show ?thesis
    using split_dot_append_dot [of p "dec_digits n @ ''.0/24''"] by simp
qed

lemma js_to_number_dec_digits: "0 \<le> n \<Longrightarrow> js_to_number (dec_digits n) = Some n"
  by (simp add: js_to_number_def parse_dec_digits)

lemma cidr_third_block: "0 \<le> n \<Longrightarrow> cidr_third (p @ CHR ''.'' # dec_digits n @ ''.0/24'') = Some n"
  by (simp add: cidr_third_def split_dot_block pop_def Let_def butlast_append
      js_to_number_opt_def js_to_number_dec_digits)

lemma octet3_decimal_block: "0 \<le> n \<Longrightarrow> octet3_decimal (p @ CHR ''.'' # dec_digits n @ ''.0/24'')"
  by (simp add: octet3_decimal_def split_dot_block pop_def butlast_append all_digits_dec_digits)

lemma network24_block:
  "0 \<le> n \<Longrightarrow> network24 (p @ CHR ''.'' # dec_digits n @ ''.0/24'') = split_dot p @ [dec_digits n]"
  by (simp add: network24_def split_dot_block pop_def butlast_append)

lemma digit_val_range: "digit_val c = Some d \<Longrightarrow> 0 \<le> d"
  by (auto simp: digit_val_def Let_def split: if_splits)

lemma parse_digits_total:
  "list_all (\<lambda>c. digit_val c \<noteq> None) s \<Longrightarrow> 0 \<le> acc \<Longrightarrow>
   \<exists>z\<ge>0. parse_digits acc s = Some z"
proof (induction s arbitrary: acc)
  case Nil
  then show ?case by simp
next
  case (Cons c cs)
  from Cons.prems(1) obtain d where d: "digit_val c = Some d" by auto
  then have "0 \<le> 10 * acc + d"
    using Cons.prems(2) digit_val_range [OF d] by simp
  with Cons d show ?case by simp
qed

lemma octet3_decimal_third: "octet3_decimal s \<Longrightarrow> \<exists>k\<ge>0. cidr_third s = Some k"
proof -
  assume "octet3_decimal s"
  then obtain seg where seg: "fst (pop (snd (pop (split_dot s)))) = Some seg" "all_digits seg"
    by (auto simp: octet3_decimal_def split: option.splits)
  then obtain z where "0 \<le> z" "parse_digits 0 seg = Some z"
    using parse_digits_total [of seg 0] by (auto simp: all_digits_def)
  with seg show ?thesis
    by (simp add: cidr_third_def js_to_number_opt_def js_to_number_def)
qed

lemma from_ge: "h \<le> findHighestCidr_from h list"
proof (induction list arbitrary: h)
  case Nil
  then show ?case by simp
next
  case (Cons r rs)
  show ?case
    using Cons [of h] Cons [of "the (cidr_third (CidrBlock r))"]
    by (auto simp: js_gt_def Let_def split: option.splits)
qed

lemma from_upper:
  "r \<in> set list \<Longrightarrow> cidr_third (CidrBlock r) = Some k \<Longrightarrow> k \<le> findHighestCidr_from h list"
proof (induction list arbitrary: h)
  case Nil
  then show ?case by simp
next
  case (Cons x xs)
  show ?case
  proof (cases "r = x")
    case True
    with Cons.prems(2) show ?thesis
      using from_ge [of k xs] from_ge [of h xs]
      by (auto simp: js_gt_def Let_def)
  next
    case False
    with Cons show ?thesis by (simp add: Let_def)
  qed
qed

lemma from_attained:
  "findHighestCidr_from h list = h \<or>
   (\<exists>r\<in>set list. cidr_third (CidrBlock r) = Some (findHighestCidr_from h list))"
proof (induction list arbitrary: h)
  case Nil
  then show ?case by simp
next
  case (Cons x xs)
  show ?case
  proof (cases "js_gt (cidr_third (CidrBlock x)) (Some h)")
    case True
    then obtain c where c: "cidr_third (CidrBlock x) = Some c"
      by (auto simp: js_gt_def split: option.splits)
    from Cons [of c] True c show ?thesis by (auto simp: Let_def)
  next
    case False
    with Cons [of h] show ?thesis by (auto simp: Let_def)
  qed
qed

lemma from_append:
  "findHighestCidr_from h (xs @ ys) = findHighestCidr_from (findHighestCidr_from h xs) ys"
  by (induction xs arbitrary: h) (simp_all add: Let_def)

lemma findHighestCidr_ge: "- 1 \<le> findHighestCidr list"
  by (simp add: findHighestCidr_def from_ge)

lemma findHighestCidr_snoc:
  "cidr_third c = Some (findHighestCidr list + 1) \<Longrightarrow>
   findHighestCidr (list @ [\<lparr>CidrBlock = c, Tags = tags\<rparr>]) = findHighestCidr list + 1"
  by (simp add: findHighestCidr_def from_append js_gt_def)

lemma getNextSubnet_eq:
  "getNextSubnet (Inr p) (Inr list) =
     Inr (p @ CHR ''.'' # dec_digits (findHighestCidr list + 1) @ ''.0/24'')"
  using findHighestCidr_ge [of list]
  by (simp add: getNextSubnet_def getCidrPostfix_def incrementHighestCidr_def
      js_number_to_string_def Let_def)

lemma cidr_third_next:
  "getNextSubnet (Inr p) (Inr list) = Inr c \<Longrightarrow> cidr_third c = Some (findHighestCidr list + 1)"
  using findHighestCidr_ge [of list] cidr_third_block [of "findHighestCidr list + 1" p]
  by (simp add: getNextSubnet_eq)

lemma allocate_seq_thirds:
  "map cidr_third (allocate_seq reqs list) =
     map (\<lambda>i. Some (findHighestCidr list + 1 + int i)) [0..<length reqs]"
proof (induction reqs arbitrary: list)
  case Nil
  then show ?case by simp
next
  case (Cons req reqs)
  obtain p tags where req: "req = (p, tags)" by (cases req)
  obtain c where c: "getNextSubnet (Inr p) (Inr list) = Inr c"
    by (simp add: getNextSubnet_eq)
  have third: "cidr_third c = Some (findHighestCidr list + 1)"
    using c by (rule cidr_third_next)
  have next_h: "findHighestCidr (list @ [\<lparr>CidrBlock = c, Tags = tags\<rparr>]) = findHighestCidr list + 1"
    using third by (rule findHighestCidr_snoc)
  have "map cidr_third (allocate_seq (req # reqs) list) =
          Some (findHighestCidr list + 1) #
          map (\<lambda>i. Some (findHighestCidr list + 1 + 1 + int i)) [0..<length reqs]"
    using Cons [of "list @ [\<lparr>CidrBlock = c, Tags = tags\<rparr>]"] c third next_h
    by (simp add: req)
  also have "\<dots> = map (\<lambda>i. Some (findHighestCidr list + 1 + int i)) [0..<length (req # reqs)]"
    by (simp add: upt_conv_Cons map_Suc_upt [symmetric] del: upt_Suc)
  finally show ?case .
qed

lemma allocate_seq_length: "length (allocate_seq reqs list) = length reqs"
  using arg_cong [OF allocate_seq_thirds [of reqs list], of length] by simp

lemma network24_third: "network24 a = network24 b \<Longrightarrow> cidr_third a = cidr_third b"
  by (simp add: network24_def cidr_third_def Let_def)

lemma allocate_seq_distinct_thirds: "distinct (map cidr_third (allocate_seq reqs list))"
  by (simp add: allocate_seq_thirds distinct_map inj_on_def)

lemma allocate_seq_distinct_networks: "distinct (map network24 (allocate_seq reqs list))"
proof -
  have "inj_on network24 (set (allocate_seq reqs list)) \<and> distinct (allocate_seq reqs list)"
    using allocate_seq_distinct_thirds [of reqs list]
    by (auto simp: distinct_map inj_on_def dest: network24_third)
  then show ?thesis by (simp add: distinct_map)
qed

lemma allocate_seq_member:
  "c \<in> set (allocate_seq reqs list) \<Longrightarrow>
   \<exists>i<length reqs. cidr_third c = Some (findHighestCidr list + 1 + int i)"
proof -
  assume "c \<in> set (allocate_seq reqs list)"
  then have "cidr_third c \<in> set (map cidr_third (allocate_seq reqs list))" by simp
  then show ?thesis unfolding allocate_seq_thirds by auto
qed

lemma allocate_seq_decimal: "b \<in> set (allocate_seq reqs list) \<Longrightarrow> octet3_decimal b"
proof (induction reqs arbitrary: list)
  case Nil
  then show ?case by simp
next
  case (Cons req reqs)
  obtain p tags where req: "req = (p, tags)" by (cases req)
  from Cons.prems Cons.IH show ?case
    using findHighestCidr_ge [of list]
    by (auto simp: req getNextSubnet_eq octet3_decimal_block)
qed

text \<open>
  C1 (as amended). For tagged subnets whose third component is an octet,
  \<open>getNextSubnet\<close> resolves to \<open>prefix.(h+1).0/24\<close> where \<open>h\<close> is the highest third
  component in use (\<open>h + 1 = 0\<close> when no subnet is tagged); the new third component is
  strictly greater than every one in use; it is an octet as long as \<open>h < 255\<close>. Allocating
  for a sequence of requests, each new subnet tagged before the next request, hands out one
  block per request with third components \<open>h+1, h+2, ...\<close>: pairwise different network
  parts, different from every network part in use, and octets as long as
  \<open>h + N \<le> 255\<close>.
\<close>

theorem getNextSubnet_next_octet:
  assumes valid: "\<forall>r\<in>set list. octet3_in_range (CidrBlock r)"
  shows "\<exists>c. getNextSubnet (Inr p) (Inr list) = Inr c
           \<and> c = p @ ''.'' @ js_number_to_string (findHighestCidr list + 1) @ ''.0/24''
           \<and> cidr_third c = Some (findHighestCidr list + 1)
           \<and> (\<forall>r\<in>set list. \<exists>k. cidr_third (CidrBlock r) = Some k \<and> k < findHighestCidr list + 1)
           \<and> (list \<noteq> [] \<longrightarrow> (\<exists>r\<in>set list. cidr_third (CidrBlock r) = Some (findHighestCidr list)))
           \<and> (list = [] \<longrightarrow> cidr_third c = Some 0)
           \<and> (findHighestCidr list < 255 \<longrightarrow> octet3_in_range c)
           \<and> length (allocate_seq reqs list) = length reqs
           \<and> map cidr_third (allocate_seq reqs list) =
               map (\<lambda>i. Some (findHighestCidr list + 1 + int i)) [0..<length reqs]
           \<and> distinct (map network24 (allocate_seq reqs list))
           \<and> (\<forall>b\<in>set (allocate_seq reqs list). \<forall>r\<in>set list. network24 b \<noteq> network24 (CidrBlock r))
           \<and> (findHighestCidr list + int (length reqs) \<le> 255 \<longrightarrow>
                (\<forall>b\<in>set (allocate_seq reqs list). octet3_in_range b))"
proof -
  let ?h = "findHighestCidr list"
  let ?c = "p @ CHR ''.'' # dec_digits (?h + 1) @ ''.0/24''"
  have decimal: "\<forall>r\<in>set list. octet3_decimal (CidrBlock r)"
    using valid by (simp add: octet3_in_range_def)
  have ge: "- 1 \<le> ?h" by (rule findHighestCidr_ge)
  have res: "getNextSubnet (Inr p) (Inr list) = Inr ?c" by (rule getNextSubnet_eq)
  have shape: "?c = p @ ''.'' @ js_number_to_string (?h + 1) @ ''.0/24''"
    using ge by (simp add: js_number_to_string_def)
  have third: "cidr_third ?c = Some (?h + 1)"
    using res by (rule cidr_third_next)
  have below: "\<exists>k. cidr_third (CidrBlock r) = Some k \<and> k < ?h + 1" if "r \<in> set list" for r
  proof -
    from that decimal obtain k where k: "cidr_third (CidrBlock r) = Some k"
      using octet3_decimal_third by blast
    with that have "k \<le> ?h"
      unfolding findHighestCidr_def by (rule from_upper)
    with k show ?thesis by simp
  qed
  have attained: "\<exists>r\<in>set list. cidr_third (CidrBlock r) = Some ?h" if "list \<noteq> []"
  proof -
    from that obtain r where r: "r \<in> set list" by (cases list) auto
    with decimal obtain k where k: "0 \<le> k" "cidr_third (CidrBlock r) = Some k"
      using octet3_decimal_third by blast
    with r have "k \<le> ?h"
      unfolding findHighestCidr_def by (simp add: from_upper)
    with k have "?h \<noteq> - 1" by simp
    then show ?thesis
      using from_attained [of "- 1" list] by (simp add: findHighestCidr_def)
  qed
  have empty: "cidr_third ?c = Some 0" if "list = []"
    using third that by (simp add: findHighestCidr_def)
  have in_range: "octet3_in_range ?c" if "?h < 255"
    using that ge third octet3_decimal_block [of "?h + 1" p]
    by (simp add: octet3_in_range_def)
  have apart: "network24 b \<noteq> network24 (CidrBlock r)"
    if b: "b \<in> set (allocate_seq reqs list)" and r: "r \<in> set list" for b r
  proof
    assume "network24 b = network24 (CidrBlock r)"
    then have same: "cidr_third b = cidr_third (CidrBlock r)" by (rule network24_third)
    from b obtain i where "cidr_third b = Some (?h + 1 + int i)"
      using allocate_seq_member by blast
    moreover from below [OF r] obtain k where "cidr_third (CidrBlock r) = Some k" "k < ?h + 1"
      by blast
    ultimately show False using same by simp
  qed
  have seq_range: "octet3_in_range b"
    if bound: "?h + int (length reqs) \<le> 255" and b: "b \<in> set (allocate_seq reqs list)" for b
  proof -
    from b obtain i where "i < length reqs" "cidr_third b = Some (?h + 1 + int i)"
      using allocate_seq_member by blast
    with bound ge b show ?thesis
      by (simp add: octet3_in_range_def allocate_seq_decimal)
  qed
  show ?thesis
    using res shape third below attained empty in_range apart seq_range
      allocate_seq_length [of reqs list] allocate_seq_thirds [of reqs list]
      allocate_seq_distinct_networks [of reqs list]
    by (intro exI [of _ ?c] conjI ballI impI) simp_all
qed

theorem getNextSubnet_next_octet_witness:
  "list_all (\<lambda>r. octet3_in_range (CidrBlock r))
     [\<lparr>CidrBlock = ''10.0.0.0/24'', Tags = []\<rparr>, \<lparr>CidrBlock = ''10.0.3.0/24'', Tags = []\<rparr>]
   \<and> findHighestCidr [\<lparr>CidrBlock = ''10.0.0.0/24'', Tags = []\<rparr>, \<lparr>CidrBlock = ''10.0.3.0/24'', Tags = []\<rparr>] = 3
   \<and> getNextSubnet (Inr ''10.0'')
       (Inr [\<lparr>CidrBlock = ''10.0.0.0/24'', Tags = []\<rparr>, \<lparr>CidrBlock = ''10.0.3.0/24'', Tags = []\<rparr>])
       = Inr ''10.0.4.0/24''
   \<and> octet3_in_range ''10.0.4.0/24''
   \<and> map cidr_third (allocate_seq [(''10.0'', []), (''10.0'', [])]
       [\<lparr>CidrBlock = ''10.0.0.0/24'', Tags = []\<rparr>, \<lparr>CidrBlock = ''10.0.3.0/24'', Tags = []\<rparr>])
       = [Some 4, Some 5]
   \<and> distinct (map network24 (allocate_seq [(''10.0'', []), (''10.0'', [])]
       [\<lparr>CidrBlock = ''10.0.0.0/24'', Tags = []\<rparr>, \<lparr>CidrBlock = ''10.0.3.0/24'', Tags = []\<rparr>]))
   \<and> list_all octet3_in_range (allocate_seq [(''10.0'', []), (''10.0'', [])]
       [\<lparr>CidrBlock = ''10.0.0.0/24'', Tags = []\<rparr>, \<lparr>CidrBlock = ''10.0.3.0/24'', Tags = []\<rparr>])"
proof -
  let ?list = "[\<lparr>CidrBlock = ''10.0.0.0/24'', Tags = []\<rparr>, \<lparr>CidrBlock = ''10.0.3.0/24'', Tags = []\<rparr>]"
  let ?reqs = "[(''10.0'', []), (''10.0'', [])] :: (string \<times> (string \<times> string) list) list"
  have dec: "list_all (\<lambda>r. octet3_in_range (CidrBlock r)) ?list" by code_simp
  then have hyp: "\<forall>r\<in>set ?list. octet3_in_range (CidrBlock r)" by (simp add: list_all_iff)
  have h: "findHighestCidr ?list = 3" by code_simp
  have str: "js_number_to_string 4 = ''4''" by code_simp
  from getNextSubnet_next_octet [OF hyp, of "''10.0''" ?reqs]
  obtain c where c:
    "getNextSubnet (Inr ''10.0'') (Inr ?list) = Inr c"
    "c = ''10.0'' @ ''.'' @ js_number_to_string (findHighestCidr ?list + 1) @ ''.0/24''"
    "findHighestCidr ?list < 255 \<longrightarrow> octet3_in_range c"
    "map cidr_third (allocate_seq ?reqs ?list) =
       map (\<lambda>i. Some (findHighestCidr ?list + 1 + int i)) [0..<length ?reqs]"
    "distinct (map network24 (allocate_seq ?reqs ?list))"
    "findHighestCidr ?list + int (length ?reqs) \<le> 255 \<longrightarrow>
       (\<forall>b\<in>set (allocate_seq ?reqs ?list). octet3_in_range b)"
    by blast
  from c(2) have c_eq: "c = ''10.0.4.0/24''" by (simp add: h str)
  from c(3) have in_range: "octet3_in_range c" by (simp add: h)
  from c(4) have thirds: "map cidr_third (allocate_seq ?reqs ?list) = [Some 4, Some 5]"
    by (simp add: h upt_rec)
  from c(6) have all_in: "list_all octet3_in_range (allocate_seq ?reqs ?list)"
    by (simp add: h list_all_iff)
  from dec h c(1) c_eq in_range thirds c(5) all_in show ?thesis by simp
qed

text \<open>
  C1, counterexample: with third octet 255 in use the allocator answers \<open>10.0.256.0/24\<close>,
  whose third component is not an octet, so the result is not a \<open>/24\<close> block.
\<close>

theorem getNextSubnet_octet_overflow:
  "octet3_in_range ''10.0.255.0/24''
   \<and> getNextSubnet (Inr ''10.0'') (Inr [\<lparr>CidrBlock = ''10.0.255.0/24'', Tags = []\<rparr>])
       = Inr ''10.0.256.0/24''
   \<and> \<not> octet3_in_range ''10.0.256.0/24''"
  by code_simp

section \<open>Properties of the instance lifecycle manager\<close>

subsection \<open>Validation\<close>

lemma require_attributes_find:
  "require_attributes c attrs =
     (case find (\<lambda>a. \<not> truthy (config_get c a)) attrs of
        None \<Rightarrow> Inr ()
      | Some a \<Rightarrow> Inl (TypeError (''Instance requires '' @ a)))"
  by (induction attrs) auto

lemma require_attributes_ok:
  "require_attributes c attrs = Inr () \<longleftrightarrow> list_all (\<lambda>a. truthy (config_get c a)) attrs"
  by (induction attrs) auto

lemma pr_all:
  "list_all (\<lambda>a. truthy (config_get c a)) prConfigAttributes \<longleftrightarrow>
     truthy (clusterName c) \<and> truthy (sgId c) \<and> truthy (subnetId c) \<and> truthy (pid c) \<and> truthy (pr c)"
  by (simp add: prConfigAttributes_def configAttributes_def config_get_def)

lemma deployment_all:
  "list_all (\<lambda>a. truthy (config_get c a)) deploymentConfigAttributes \<longleftrightarrow>
     truthy (clusterName c) \<and> truthy (sgId c) \<and> truthy (subnetId c) \<and> truthy (pid c) \<and> truthy (deployment c)"
  by (simp add: deploymentConfigAttributes_def configAttributes_def config_get_def)

text \<open>
  C8 (as amended). \<open>createPr\<close> fails with the \<open>TypeError\<close> \<open>Instance requires <attr>\<close> for
  the first of \<open>clusterName\<close>, \<open>sgId\<close>, \<open>subnetId\<close>, \<open>pid\<close>, \<open>pr\<close> whose value is falsy, and
  passes validation exactly when all five are truthy; \<open>createDeployment\<close> does the same
  with \<open>deployment\<close> in the place of \<open>pr\<close>. Neither looks at the other kind's attribute.
  A missing configuration object is a \<open>TypeError\<close> of its own.
\<close>

theorem validation_first_falsy:
  "validateCreatePrConfig None = Inl (TypeError ''This function requires a configuration object'')
   \<and> validateCreateDeploymentConfig None = Inl (TypeError ''This function requires a configuration object'')
   \<and> validateCreatePrConfig (Some c) =
        (case find (\<lambda>a. \<not> truthy (config_get c a)) [''clusterName'', ''sgId'', ''subnetId'', ''pid'', ''pr''] of
           None \<Rightarrow> Inr ()
         | Some a \<Rightarrow> Inl (TypeError (''Instance requires '' @ a)))
   \<and> validateCreateDeploymentConfig (Some c) =
        (case find (\<lambda>a. \<not> truthy (config_get c a)) [''clusterName'', ''sgId'', ''subnetId'', ''pid'', ''deployment''] of
           None \<Rightarrow> Inr ()
         | Some a \<Rightarrow> Inl (TypeError (''Instance requires '' @ a)))
   \<and> (validateCreatePrConfig (Some c) = Inr () \<longleftrightarrow>
        truthy (clusterName c) \<and> truthy (sgId c) \<and> truthy (subnetId c) \<and> truthy (pid c) \<and> truthy (pr c))
   \<and> (validateCreateDeploymentConfig (Some c) = Inr () \<longleftrightarrow>
        truthy (clusterName c) \<and> truthy (sgId c) \<and> truthy (subnetId c) \<and> truthy (pid c) \<and> truthy (deployment c))
   \<and> (\<forall>e. validateCreatePrConfig (Some c) = Inl e \<longrightarrow> createPr (Some c) launch = Inl e)
   \<and> (\<forall>e. validateCreateDeploymentConfig (Some c) = Inl e \<longrightarrow>
          createDeployment (Some c) launch = Inl e)"
proof -
  have a: "validateCreatePrConfig (Some c) =
        (case find (\<lambda>a. \<not> truthy (config_get c a)) [''clusterName'', ''sgId'', ''subnetId'', ''pid'', ''pr''] of
           None \<Rightarrow> Inr ()
         | Some a \<Rightarrow> Inl (TypeError (''Instance requires '' @ a)))"
    unfolding validateCreatePrConfig_def option.case require_attributes_find
    by (simp only: prConfigAttributes_def configAttributes_def append.simps)
  have b: "validateCreateDeploymentConfig (Some c) =
        (case find (\<lambda>a. \<not> truthy (config_get c a)) [''clusterName'', ''sgId'', ''subnetId'', ''pid'', ''deployment''] of
           None \<Rightarrow> Inr ()
         | Some a \<Rightarrow> Inl (TypeError (''Instance requires '' @ a)))"
    unfolding validateCreateDeploymentConfig_def option.case require_attributes_find
    by (simp only: deploymentConfigAttributes_def configAttributes_def append.simps)
  have c: "validateCreatePrConfig (Some c) = Inr () \<longleftrightarrow>
        truthy (clusterName c) \<and> truthy (sgId c) \<and> truthy (subnetId c) \<and> truthy (pid c) \<and> truthy (pr c)"
    by (simp add: validateCreatePrConfig_def require_attributes_ok pr_all)
  have d: "validateCreateDeploymentConfig (Some c) = Inr () \<longleftrightarrow>
        truthy (clusterName c) \<and> truthy (sgId c) \<and> truthy (subnetId c) \<and> truthy (pid c) \<and> truthy (deployment c)"
    by (simp add: validateCreateDeploymentConfig_def require_attributes_ok deployment_all)
  have e: "\<forall>e. validateCreatePrConfig (Some c) = Inl e \<longrightarrow> createPr (Some c) launch = Inl e"
    by (simp add: createPr_def)
  have f: "\<forall>e. validateCreateDeploymentConfig (Some c) = Inl e \<longrightarrow>
          createDeployment (Some c) launch = Inl e"
    by (simp add: createDeployment_def)
  have n: "validateCreatePrConfig None = Inl (TypeError ''This function requires a configuration object'')"
    "validateCreateDeploymentConfig None = Inl (TypeError ''This function requires a configuration object'')"
    by (simp_all add: validateCreatePrConfig_def validateCreateDeploymentConfig_def)
  from n a b c d e f show ?thesis by blast
qed

theorem validation_witness:
  "validateCreatePrConfig (Some \<lparr>clusterName = JStr ''c'', sgId = JStr ''sg-1'',
      subnetId = JUndefined, pid = JStr ''proj'', pr = JUndefined, deployment = JStr ''beta'',
      auth = None, sshPath = SshKeys [], apiConfig = True\<rparr>)
    = Inl (TypeError ''Instance requires subnetId'')
   \<and> createPr (Some \<lparr>clusterName = JStr ''c'', sgId = JStr ''sg-1'',
      subnetId = JUndefined, pid = JStr ''proj'', pr = JUndefined, deployment = JStr ''beta'',
      auth = None, sshPath = SshKeys [], apiConfig = True\<rparr>) (\<lambda>data. Inr data)
    = Inl (TypeError ''Instance requires subnetId'')"
proof -
  let ?c = "\<lparr>clusterName = JStr ''c'', sgId = JStr ''sg-1'',
      subnetId = JUndefined, pid = JStr ''proj'', pr = JUndefined, deployment = JStr ''beta'',
      auth = None, sshPath = SshKeys [], apiConfig = True\<rparr>"
  note all = validation_first_falsy [of ?c "\<lambda>data. Inr data"]
  from all have "validateCreatePrConfig (Some ?c) =
        (case find (\<lambda>a. \<not> truthy (config_get ?c a)) [''clusterName'', ''sgId'', ''subnetId'', ''pid'', ''pr''] of
           None \<Rightarrow> Inr ()
         | Some a \<Rightarrow> Inl (TypeError (''Instance requires '' @ a)))"
    by (elim conjE)
  then have v: "validateCreatePrConfig (Some ?c) = Inl (TypeError ''Instance requires subnetId'')"
    by (simp add: config_get_def truthy_def)
  from all have "\<forall>e. validateCreatePrConfig (Some ?c) = Inl e \<longrightarrow>
      createPr (Some ?c) (\<lambda>data. Inr data) = Inl e"
    by (elim conjE)
  with v show ?thesis by simp
qed

text \<open>
  C8, counterexample: a configuration that supplies both \<open>pr\<close> and \<open>deployment\<close> passes
  both validators.
\<close>

theorem validation_accepts_both:
  "validateCreatePrConfig (Some \<lparr>clusterName = JStr ''c'', sgId = JStr ''sg-1'',
      subnetId = JStr ''subnet-1'', pid = JStr ''proj'', pr = JStr ''7'', deployment = JStr ''beta'',
      auth = None, sshPath = SshKeys [], apiConfig = True\<rparr>) = Inr ()
   \<and> validateCreateDeploymentConfig (Some \<lparr>clusterName = JStr ''c'', sgId = JStr ''sg-1'',
      subnetId = JStr ''subnet-1'', pid = JStr ''proj'', pr = JStr ''7'', deployment = JStr ''beta'',
      auth = None, sshPath = SshKeys [], apiConfig = True\<rparr>) = Inr ()"
  by (simp add: validateCreatePrConfig_def validateCreateDeploymentConfig_def
      prConfigAttributes_def deploymentConfigAttributes_def configAttributes_def config_get_def
      truthy_def)

subsection \<open>Base64\<close>

lemma of_char_bound: "(of_char c :: nat) < 256"
  by (metis of_char_mod_256 mod_less_divisor zero_less_numeral)

lemma of_char_of_small: "n < 256 \<Longrightarrow> (of_char (char_of n) :: nat) = n"
  by (simp add: of_char_of)

lemma b64_index_char: "i < 64 \<Longrightarrow> b64_index (b64_char i) = Some i"
proof -
  assume i: "i < 64"
  consider "i < 26" | "26 \<le> i" "i < 52" | "52 \<le> i" "i < 62" | "i = 62" | "i = 63"
    using i by linarith
  then show ?thesis
  proof cases
    case 1
    then show ?thesis by (simp add: b64_index_def b64_char_def Let_def of_char_of_small)
  next
    case 2
    then show ?thesis by (simp add: b64_index_def b64_char_def Let_def of_char_of_small)
  next
    case 3
    then show ?thesis by (auto simp: b64_index_def b64_char_def Let_def of_char_of_small)
  next
    case 4
    then show ?thesis by (simp add: b64_index_def b64_char_def Let_def)
  next
    case 5
    then show ?thesis by (simp add: b64_index_def b64_char_def Let_def)
  qed
qed

lemma b64_char_not_pad: "i < 64 \<Longrightarrow> b64_char i \<noteq> CHR ''=''"
proof
  assume i: "i < 64" and "b64_char i = CHR ''=''"
  then have "b64_index (b64_char i) = b64_index CHR ''=''" by simp
  with i show False by (simp add: b64_index_char) (simp add: b64_index_def)
qed

lemma sextets:
  fixes x y z :: nat
  assumes "x < 256" "y < 256" "z < 256"
  shows "x div 4 < 64" "(x mod 4) * 16 < 64" "(x mod 4) * 16 + y div 16 < 64"
    "(y mod 16) * 4 < 64" "(y mod 16) * 4 + z div 64 < 64" "z mod 64 < 64"
  using assms by auto

lemma regroup1: "x div 4 * 4 + ((x mod 4) * 16 + y div 16) div 16 = (x::nat)" if "y < 256"
proof -
  have "y div 16 < 16" using that by auto
  then have "((x mod 4) * 16 + y div 16) div 16 = x mod 4" by simp
  then show ?thesis by simp
qed

lemma regroup2: "(((x mod 4) * 16 + y div 16) mod 16) * 16 + ((y mod 16) * 4 + z div 64) div 4 = (y::nat)"
  if "y < 256" "z < 256"
proof -
  have "y div 16 < 16" using that by auto
  then have a: "((x mod 4) * 16 + y div 16) mod 16 = y div 16" by simp
  have "z div 64 < 4" using that by auto
  then have b: "((y mod 16) * 4 + z div 64) div 4 = y mod 16" by simp
  show ?thesis unfolding a b by simp
qed

lemma regroup3: "(((y mod 16) * 4 + z div 64) mod 4) * 64 + z mod 64 = (z::nat)" if "z < 256"
proof -
  have "z div 64 < 4" using that by auto
  then have "((y mod 16) * 4 + z div 64) mod 4 = z div 64" by simp
  then show ?thesis by simp
qed

lemma base64_roundtrip: "base64_decode (base64 bytes) = Some bytes"
proof (induction bytes rule: base64.induct)
  case 1
  then show ?case by simp
next
  case (2 a)
  let ?x = "of_char a :: nat"
  have x: "?x < 256" by (rule of_char_bound)
  have i: "b64_index (b64_char (?x div 4)) = Some (?x div 4)"
    and j: "b64_index (b64_char ((?x mod 4) * 16)) = Some ((?x mod 4) * 16)"
    using sextets(1,2) [OF x x x] by (simp_all add: b64_index_char)
  have "?x div 4 * 4 + ((?x mod 4) * 16) div 16 = ?x" by simp
  then show ?case
    by (simp add: Let_def i j)
next
  case (3 a b)
  let ?x = "of_char a :: nat" and ?y = "of_char b :: nat"
  have x: "?x < 256" and y: "?y < 256" by (rule of_char_bound)+
  have i: "b64_index (b64_char (?x div 4)) = Some (?x div 4)"
    and j: "b64_index (b64_char ((?x mod 4) * 16 + ?y div 16)) = Some ((?x mod 4) * 16 + ?y div 16)"
    and k: "b64_index (b64_char ((?y mod 16) * 4)) = Some ((?y mod 16) * 4)"
    and np: "b64_char ((?y mod 16) * 4) \<noteq> CHR ''=''"
    using sextets(1,3,4) [OF x y y] by (simp_all add: b64_index_char b64_char_not_pad)
  have r1: "?x div 4 * 4 + ((?x mod 4) * 16 + ?y div 16) div 16 = ?x"
    using y by (rule regroup1)
  have r2: "(((?x mod 4) * 16 + ?y div 16) mod 16) * 16 + ((?y mod 16) * 4 + 0 div 64) div 4 = ?y"
    using y by (rule regroup2) simp
  show ?case
    using r1 r2 by (simp add: Let_def i j k np)
next
  case (4 a b c rest)
  let ?x = "of_char a :: nat" and ?y = "of_char b :: nat" and ?z = "of_char c :: nat"
  have x: "?x < 256" and y: "?y < 256" and z: "?z < 256" by (rule of_char_bound)+
  have i: "b64_index (b64_char (?x div 4)) = Some (?x div 4)"
    and j: "b64_index (b64_char ((?x mod 4) * 16 + ?y div 16)) = Some ((?x mod 4) * 16 + ?y div 16)"
    and k: "b64_index (b64_char ((?y mod 16) * 4 + ?z div 64)) = Some ((?y mod 16) * 4 + ?z div 64)"
    and l: "b64_index (b64_char (?z mod 64)) = Some (?z mod 64)"
    and np: "b64_char ((?y mod 16) * 4 + ?z div 64) \<noteq> CHR ''=''" "b64_char (?z mod 64) \<noteq> CHR ''=''"
    using sextets(1,3,5,6) [OF x y z] by (simp_all add: b64_index_char b64_char_not_pad)
  have r1: "?x div 4 * 4 + ((?x mod 4) * 16 + ?y div 16) div 16 = ?x"
    using y by (rule regroup1)
  have r2: "(((?x mod 4) * 16 + ?y div 16) mod 16) * 16 + ((?y mod 16) * 4 + ?z div 64) div 4 = ?y"
    using y z by (rule regroup2)
  have r3: "(((?y mod 16) * 4 + ?z div 64) mod 4) * 64 + ?z mod 64 = ?z"
    using z by (rule regroup3)
  show ?case
    using 4 r1 r2 r3 by (simp add: Let_def i j k l np)
qed

subsection \<open>Bootstrap script\<close>

lemma user_data_no_auth: "\<exists>u. getECSContainerInstanceUserData cn None ssh = Inr u"
  by (cases ssh) (auto simp: getECSContainerInstanceUserData_def Let_def split: sum.splits)

lemma user_data_lines:
  "getECSContainerInstanceUserData cn au ssh = Inr u \<Longrightarrow>
   \<exists>rest. u = stringArrayToNewLineBase64
     ([''#!/bin/bash'', ''echo ECS_CLUSTER='' @ cn @ '' >> /etc/ecs/ecs.config;''] @ rest)"
  by (auto simp: getECSContainerInstanceUserData_def Let_def split: sum.splits ssh_source.splits)

text \<open>
  C9. Without credentials and without keys (an empty key array, an empty key directory or
  an unreadable key path) the script is the line \<open>#!/bin/bash\<close> and the cluster-join
  directive \<open>echo ECS_CLUSTER=<cluster> >> /etc/ecs/ecs.config;\<close>. With one key it goes on
  with \<open>mkdir -p /home/ec2-user/.ssh\<close>, one directive that appends the key to
  \<open>/home/ec2-user/.ssh/authorized_keys\<close>, and the \<open>chown\<close>/\<open>chmod\<close> directive; with
  any number of keys there is one append directive for each key, in their order, between
  these two. Whatever the credentials and keys, a result is the base64 encoding of the lines
  joined by line feeds (decoding gives the script back), and that encoding is what
  \<open>createPr\<close> and \<open>createDeployment\<close> submit.
\<close>

theorem user_data_assembly:
  "getECSContainerInstanceUserData cn None (SshKeys []) =
     Inr (base64 (''#!/bin/bash'' @ [CHR 0x0A] @ ''echo ECS_CLUSTER='' @ cn @ '' >> /etc/ecs/ecs.config;''))
   \<and> getECSContainerInstanceUserData cn None (SshPath (Inr [])) =
     Inr (base64 (''#!/bin/bash'' @ [CHR 0x0A] @ ''echo ECS_CLUSTER='' @ cn @ '' >> /etc/ecs/ecs.config;''))
   \<and> getECSContainerInstanceUserData cn None (SshPath (Inl err)) =
     Inr (base64 (''#!/bin/bash'' @ [CHR 0x0A] @ ''echo ECS_CLUSTER='' @ cn @ '' >> /etc/ecs/ecs.config;''))
   \<and> getECSContainerInstanceUserData cn None (SshKeys [key]) =
     Inr (base64 (''#!/bin/bash'' @ [CHR 0x0A] @ ''echo ECS_CLUSTER='' @ cn @ '' >> /etc/ecs/ecs.config;'' @ [CHR 0x0A] @
          ''mkdir -p /home/ec2-user/.ssh'' @ [CHR 0x0A] @
          ''echo '' @ [CHR 0x22, CHR 0x0A] @ key @ [CHR 0x22] @
          '' >> /home/ec2-user/.ssh/authorized_keys'' @ [CHR 0x0A] @
          ''chown -R ec2-user:ec2-user /home/ec2-user/.ssh && chmod -R go-rwx /home/ec2-user/.ssh''))
   \<and> getECSContainerInstanceUserData cn None (SshPath (Inr [key])) =
     Inr (base64 (''#!/bin/bash'' @ [CHR 0x0A] @ ''echo ECS_CLUSTER='' @ cn @ '' >> /etc/ecs/ecs.config;'' @ [CHR 0x0A] @
          ''mkdir -p /home/ec2-user/.ssh'' @ [CHR 0x0A] @
          ''echo '' @ [CHR 0x22, CHR 0x0A] @ key @ [CHR 0x22] @
          '' >> /home/ec2-user/.ssh/authorized_keys'' @ [CHR 0x0A] @
          ''chown -R ec2-user:ec2-user /home/ec2-user/.ssh && chmod -R go-rwx /home/ec2-user/.ssh''))
   \<and> processSSHKeys [] = []
   \<and> (keys \<noteq> [] \<longrightarrow> processSSHKeys keys =
        ''mkdir -p /home/ec2-user/.ssh'' #
        map (\<lambda>key. ''echo '' @ [CHR 0x22, CHR 0x0A] @ key @ [CHR 0x22] @
                    '' >> /home/ec2-user/.ssh/authorized_keys'') keys @
        [''chown -R ec2-user:ec2-user /home/ec2-user/.ssh && chmod -R go-rwx /home/ec2-user/.ssh''])
   \<and> (\<forall>u. getECSContainerInstanceUserData cn au ssh = Inr u \<longrightarrow>
        (\<exists>rest. u = base64 (join_lines
            ([''#!/bin/bash'', ''echo ECS_CLUSTER='' @ cn @ '' >> /etc/ecs/ecs.config;''] @ rest))
          \<and> base64_decode u = Some (join_lines
            ([''#!/bin/bash'', ''echo ECS_CLUSTER='' @ cn @ '' >> /etc/ecs/ecs.config;''] @ rest))))
   \<and> (\<forall>script. base64_decode (base64 script) = Some script)
   \<and> (validateCreatePrConfig (Some c) = Inr () \<and> apiConfig c \<longrightarrow>
        (case getECSContainerInstanceUserData (js_to_string (clusterName c)) (auth c) (sshPath c) of
           Inl e \<Rightarrow> createPr (Some c) launch = Inl e
         | Inr u \<Rightarrow> createPr (Some c) launch = launch u))
   \<and> (validateCreateDeploymentConfig (Some c) = Inr () \<and> apiConfig c \<longrightarrow>
        (case getECSContainerInstanceUserData (js_to_string (clusterName c)) (auth c) (sshPath c) of
           Inl e \<Rightarrow> createDeployment (Some c) launch = Inl e
         | Inr u \<Rightarrow> createDeployment (Some c) launch = launch u))"
proof -
  have none: "getECSContainerInstanceUserData cn None (SshKeys []) =
     Inr (base64 (''#!/bin/bash'' @ [CHR 0x0A] @ ''echo ECS_CLUSTER='' @ cn @ '' >> /etc/ecs/ecs.config;''))"
    and none_path: "getECSContainerInstanceUserData cn None (SshPath (Inr [])) =
     Inr (base64 (''#!/bin/bash'' @ [CHR 0x0A] @ ''echo ECS_CLUSTER='' @ cn @ '' >> /etc/ecs/ecs.config;''))"
    and unreadable: "getECSContainerInstanceUserData cn None (SshPath (Inl err)) =
     Inr (base64 (''#!/bin/bash'' @ [CHR 0x0A] @ ''echo ECS_CLUSTER='' @ cn @ '' >> /etc/ecs/ecs.config;''))"
    by (simp_all add: getECSContainerInstanceUserData_def processSSHKeys_def
        stringArrayToNewLineBase64_def del: base64.simps)
  have one: "getECSContainerInstanceUserData cn None (SshKeys [key]) =
     Inr (base64 (''#!/bin/bash'' @ [CHR 0x0A] @ ''echo ECS_CLUSTER='' @ cn @ '' >> /etc/ecs/ecs.config;'' @ [CHR 0x0A] @
          ''mkdir -p /home/ec2-user/.ssh'' @ [CHR 0x0A] @
          ''echo '' @ [CHR 0x22, CHR 0x0A] @ key @ [CHR 0x22] @
          '' >> /home/ec2-user/.ssh/authorized_keys'' @ [CHR 0x0A] @
          ''chown -R ec2-user:ec2-user /home/ec2-user/.ssh && chmod -R go-rwx /home/ec2-user/.ssh''))"
    and one_path: "getECSContainerInstanceUserData cn None (SshPath (Inr [key])) =
     Inr (base64 (''#!/bin/bash'' @ [CHR 0x0A] @ ''echo ECS_CLUSTER='' @ cn @ '' >> /etc/ecs/ecs.config;'' @ [CHR 0x0A] @
          ''mkdir -p /home/ec2-user/.ssh'' @ [CHR 0x0A] @
          ''echo '' @ [CHR 0x22, CHR 0x0A] @ key @ [CHR 0x22] @
          '' >> /home/ec2-user/.ssh/authorized_keys'' @ [CHR 0x0A] @
          ''chown -R ec2-user:ec2-user /home/ec2-user/.ssh && chmod -R go-rwx /home/ec2-user/.ssh''))"
    by (simp_all add: getECSContainerInstanceUserData_def processSSHKeys_def
        stringArrayToNewLineBase64_def SETUP_SSH_def key_append_def OUTPUT_SSH_def CHOWN_SSH_def
        del: base64.simps)
  have no_keys: "processSSHKeys [] = []"
    by (simp add: processSSHKeys_def)
  have some_keys: "keys \<noteq> [] \<longrightarrow> processSSHKeys keys =
        ''mkdir -p /home/ec2-user/.ssh'' #
        map (\<lambda>key. ''echo '' @ [CHR 0x22, CHR 0x0A] @ key @ [CHR 0x22] @
                    '' >> /home/ec2-user/.ssh/authorized_keys'') keys @
        [''chown -R ec2-user:ec2-user /home/ec2-user/.ssh && chmod -R go-rwx /home/ec2-user/.ssh'']"
    by (simp add: processSSHKeys_def SETUP_SSH_def key_append_def OUTPUT_SSH_def CHOWN_SSH_def)
  have encoded: "\<forall>u. getECSContainerInstanceUserData cn au ssh = Inr u \<longrightarrow>
        (\<exists>rest. u = base64 (join_lines
            ([''#!/bin/bash'', ''echo ECS_CLUSTER='' @ cn @ '' >> /etc/ecs/ecs.config;''] @ rest))
          \<and> base64_decode u = Some (join_lines
            ([''#!/bin/bash'', ''echo ECS_CLUSTER='' @ cn @ '' >> /etc/ecs/ecs.config;''] @ rest)))"
  proof (intro allI impI)
    fix u assume "getECSContainerInstanceUserData cn au ssh = Inr u"
    from user_data_lines [OF this]
    show "\<exists>rest. u = base64 (join_lines
            ([''#!/bin/bash'', ''echo ECS_CLUSTER='' @ cn @ '' >> /etc/ecs/ecs.config;''] @ rest))
          \<and> base64_decode u = Some (join_lines
            ([''#!/bin/bash'', ''echo ECS_CLUSTER='' @ cn @ '' >> /etc/ecs/ecs.config;''] @ rest))"
      by (auto simp: stringArrayToNewLineBase64_def base64_roundtrip
          simp del: join_lines.simps base64.simps)
  qed
  have decoded: "\<forall>script. base64_decode (base64 script) = Some script"
    by (simp add: base64_roundtrip del: base64.simps)
  have submit_pr: "validateCreatePrConfig (Some c) = Inr () \<and> apiConfig c \<longrightarrow>
        (case getECSContainerInstanceUserData (js_to_string (clusterName c)) (auth c) (sshPath c) of
           Inl e \<Rightarrow> createPr (Some c) launch = Inl e
         | Inr u \<Rightarrow> createPr (Some c) launch = launch u)"
    by (simp add: createPr_def split: sum.splits)
  have submit_dep: "validateCreateDeploymentConfig (Some c) = Inr () \<and> apiConfig c \<longrightarrow>
        (case getECSContainerInstanceUserData (js_to_string (clusterName c)) (auth c) (sshPath c) of
           Inl e \<Rightarrow> createDeployment (Some c) launch = Inl e
         | Inr u \<Rightarrow> createDeployment (Some c) launch = launch u)"
    by (simp add: createDeployment_def split: sum.splits)
  from none none_path unreadable one one_path no_keys some_keys encoded decoded submit_pr submit_dep
  show ?thesis by (intro conjI)
qed

theorem user_data_assembly_witness:
  "getECSContainerInstanceUserData ''c1'' None (SshKeys []) =
     Inr ''IyEvYmluL2Jhc2gKZWNobyBFQ1NfQ0xVU1RFUj1jMSA+PiAvZXRjL2Vjcy9lY3MuY29uZmlnOw==''
   \<and> base64_decode ''IyEvYmluL2Jhc2gKZWNobyBFQ1NfQ0xVU1RFUj1jMSA+PiAvZXRjL2Vjcy9lY3MuY29uZmlnOw=='' =
       Some (''#!/bin/bash'' @ [CHR 0x0A] @ ''echo ECS_CLUSTER='' @ ''c1'' @ '' >> /etc/ecs/ecs.config;'')
   \<and> getECSContainerInstanceUserData ''c1'' None (SshKeys [''ssh-rsa AAAA'']) =
     Inr ''IyEvYmluL2Jhc2gKZWNobyBFQ1NfQ0xVU1RFUj1jMSA+PiAvZXRjL2Vjcy9lY3MuY29uZmlnOwpta2RpciAtcCAvaG9tZS9lYzItdXNlci8uc3NoCmVjaG8gIgpzc2gtcnNhIEFBQUEiID4+IC9ob21lL2VjMi11c2VyLy5zc2gvYXV0aG9yaXplZF9rZXlzCmNob3duIC1SIGVjMi11c2VyOmVjMi11c2VyIC9ob21lL2VjMi11c2VyLy5zc2ggJiYgY2htb2QgLVIgZ28tcnd4IC9ob21lL2VjMi11c2VyLy5zc2g=''
   \<and> base64_decode ''IyEvYmluL2Jhc2gKZWNobyBFQ1NfQ0xVU1RFUj1jMSA+PiAvZXRjL2Vjcy9lY3MuY29uZmlnOwpta2RpciAtcCAvaG9tZS9lYzItdXNlci8uc3NoCmVjaG8gIgpzc2gtcnNhIEFBQUEiID4+IC9ob21lL2VjMi11c2VyLy5zc2gvYXV0aG9yaXplZF9rZXlzCmNob3duIC1SIGVjMi11c2VyOmVjMi11c2VyIC9ob21lL2VjMi11c2VyLy5zc2ggJiYgY2htb2QgLVIgZ28tcnd4IC9ob21lL2VjMi11c2VyLy5zc2g='' =
       Some (''#!/bin/bash'' @ [CHR 0x0A] @ ''echo ECS_CLUSTER='' @ ''c1'' @ '' >> /etc/ecs/ecs.config;'' @ [CHR 0x0A] @
          ''mkdir -p /home/ec2-user/.ssh'' @ [CHR 0x0A] @
          ''echo '' @ [CHR 0x22, CHR 0x0A] @ ''ssh-rsa AAAA'' @ [CHR 0x22] @
          '' >> /home/ec2-user/.ssh/authorized_keys'' @ [CHR 0x0A] @
          ''chown -R ec2-user:ec2-user /home/ec2-user/.ssh && chmod -R go-rwx /home/ec2-user/.ssh'')
   \<and> processSSHKeys [''k1'', ''k2''] =
       [''mkdir -p /home/ec2-user/.ssh'',
        ''echo '' @ [CHR 0x22, CHR 0x0A] @ ''k1'' @ [CHR 0x22] @ '' >> /home/ec2-user/.ssh/authorized_keys'',
        ''echo '' @ [CHR 0x22, CHR 0x0A] @ ''k2'' @ [CHR 0x22] @ '' >> /home/ec2-user/.ssh/authorized_keys'',
        ''chown -R ec2-user:ec2-user /home/ec2-user/.ssh && chmod -R go-rwx /home/ec2-user/.ssh'']
   \<and> validateCreatePrConfig (Some \<lparr>clusterName = JStr ''c1'', sgId = JStr ''sg-1'',
        subnetId = JStr ''subnet-1'', pid = JStr ''proj'', pr = JStr ''7'', deployment = JUndefined,
        auth = None, sshPath = SshKeys [''ssh-rsa AAAA''], apiConfig = True\<rparr>) = Inr ()
   \<and> createPr (Some \<lparr>clusterName = JStr ''c1'', sgId = JStr ''sg-1'',
        subnetId = JStr ''subnet-1'', pid = JStr ''proj'', pr = JStr ''7'', deployment = JUndefined,
        auth = None, sshPath = SshKeys [''ssh-rsa AAAA''], apiConfig = True\<rparr>) (\<lambda>data. Inr data)
       = Inr ''IyEvYmluL2Jhc2gKZWNobyBFQ1NfQ0xVU1RFUj1jMSA+PiAvZXRjL2Vjcy9lY3MuY29uZmlnOwpta2RpciAtcCAvaG9tZS9lYzItdXNlci8uc3NoCmVjaG8gIgpzc2gtcnNhIEFBQUEiID4+IC9ob21lL2VjMi11c2VyLy5zc2gvYXV0aG9yaXplZF9rZXlzCmNob3duIC1SIGVjMi11c2VyOmVjMi11c2VyIC9ob21lL2VjMi11c2VyLy5zc2ggJiYgY2htb2QgLVIgZ28tcnd4IC9ob21lL2VjMi11c2VyLy5zc2g=''"
proof -
  let ?c = "\<lparr>clusterName = JStr ''c1'', sgId = JStr ''sg-1'',
        subnetId = JStr ''subnet-1'', pid = JStr ''proj'', pr = JStr ''7'', deployment = JUndefined,
        auth = None, sshPath = SshKeys [''ssh-rsa AAAA''], apiConfig = True\<rparr>"
  note all = user_data_assembly [of "''c1''" undefined "''ssh-rsa AAAA''" "[''k1'', ''k2'']" None
      "SshKeys []" ?c "\<lambda>data. Inr data"]
  have b0: "base64 (''#!/bin/bash'' @ [CHR 0x0A] @ ''echo ECS_CLUSTER='' @ ''c1'' @ '' >> /etc/ecs/ecs.config;'') =
      ''IyEvYmluL2Jhc2gKZWNobyBFQ1NfQ0xVU1RFUj1jMSA+PiAvZXRjL2Vjcy9lY3MuY29uZmlnOw==''"
    by code_simp
  have b1: "base64 (''#!/bin/bash'' @ [CHR 0x0A] @ ''echo ECS_CLUSTER='' @ ''c1'' @ '' >> /etc/ecs/ecs.config;'' @ [CHR 0x0A] @
          ''mkdir -p /home/ec2-user/.ssh'' @ [CHR 0x0A] @
          ''echo '' @ [CHR 0x22, CHR 0x0A] @ ''ssh-rsa AAAA'' @ [CHR 0x22] @
          '' >> /home/ec2-user/.ssh/authorized_keys'' @ [CHR 0x0A] @
          ''chown -R ec2-user:ec2-user /home/ec2-user/.ssh && chmod -R go-rwx /home/ec2-user/.ssh'') =
      ''IyEvYmluL2Jhc2gKZWNobyBFQ1NfQ0xVU1RFUj1jMSA+PiAvZXRjL2Vjcy9lY3MuY29uZmlnOwpta2RpciAtcCAvaG9tZS9lYzItdXNlci8uc3NoCmVjaG8gIgpzc2gtcnNhIEFBQUEiID4+IC9ob21lL2VjMi11c2VyLy5zc2gvYXV0aG9yaXplZF9rZXlzCmNob3duIC1SIGVjMi11c2VyOmVjMi11c2VyIC9ob21lL2VjMi11c2VyLy5zc2ggJiYgY2htb2QgLVIgZ28tcnd4IC9ob21lL2VjMi11c2VyLy5zc2g=''"
    by code_simp
  from all have e0: "getECSContainerInstanceUserData ''c1'' None (SshKeys []) =
     Inr (base64 (''#!/bin/bash'' @ [CHR 0x0A] @ ''echo ECS_CLUSTER='' @ ''c1'' @ '' >> /etc/ecs/ecs.config;''))"
    by (elim conjE)
  from all have e1: "getECSContainerInstanceUserData ''c1'' None (SshKeys [''ssh-rsa AAAA'']) =
     Inr (base64 (''#!/bin/bash'' @ [CHR 0x0A] @ ''echo ECS_CLUSTER='' @ ''c1'' @ '' >> /etc/ecs/ecs.config;'' @ [CHR 0x0A] @
          ''mkdir -p /home/ec2-user/.ssh'' @ [CHR 0x0A] @
          ''echo '' @ [CHR 0x22, CHR 0x0A] @ ''ssh-rsa AAAA'' @ [CHR 0x22] @
          '' >> /home/ec2-user/.ssh/authorized_keys'' @ [CHR 0x0A] @
          ''chown -R ec2-user:ec2-user /home/ec2-user/.ssh && chmod -R go-rwx /home/ec2-user/.ssh''))"
    by (elim conjE)
  from all have dec: "\<forall>script. base64_decode (base64 script) = Some script"
    by (elim conjE)
  from all have keys: "[''k1'', ''k2''] \<noteq> [] \<longrightarrow> processSSHKeys [''k1'', ''k2''] =
        ''mkdir -p /home/ec2-user/.ssh'' #
        map (\<lambda>key. ''echo '' @ [CHR 0x22, CHR 0x0A] @ key @ [CHR 0x22] @
                    '' >> /home/ec2-user/.ssh/authorized_keys'') [''k1'', ''k2''] @
        [''chown -R ec2-user:ec2-user /home/ec2-user/.ssh && chmod -R go-rwx /home/ec2-user/.ssh'']"
    by (elim conjE)
  from all have sub: "validateCreatePrConfig (Some ?c) = Inr () \<and> apiConfig ?c \<longrightarrow>
        (case getECSContainerInstanceUserData (js_to_string (clusterName ?c)) (auth ?c) (sshPath ?c) of
           Inl e \<Rightarrow> createPr (Some ?c) (\<lambda>data. Inr data) = Inl e
         | Inr u \<Rightarrow> createPr (Some ?c) (\<lambda>data. Inr data) = Inr u)"
    by (elim conjE)
  have v: "validateCreatePrConfig (Some ?c) = Inr ()" by code_simp
  have w0: "getECSContainerInstanceUserData ''c1'' None (SshKeys []) =
     Inr ''IyEvYmluL2Jhc2gKZWNobyBFQ1NfQ0xVU1RFUj1jMSA+PiAvZXRjL2Vjcy9lY3MuY29uZmlnOw==''"
    using e0 unfolding b0 .
  have w1: "getECSContainerInstanceUserData ''c1'' None (SshKeys [''ssh-rsa AAAA'']) =
     Inr ''IyEvYmluL2Jhc2gKZWNobyBFQ1NfQ0xVU1RFUj1jMSA+PiAvZXRjL2Vjcy9lY3MuY29uZmlnOwpta2RpciAtcCAvaG9tZS9lYzItdXNlci8uc3NoCmVjaG8gIgpzc2gtcnNhIEFBQUEiID4+IC9ob21lL2VjMi11c2VyLy5zc2gvYXV0aG9yaXplZF9rZXlzCmNob3duIC1SIGVjMi11c2VyOmVjMi11c2VyIC9ob21lL2VjMi11c2VyLy5zc2ggJiYgY2htb2QgLVIgZ28tcnd4IC9ob21lL2VjMi11c2VyLy5zc2g=''"
    using e1 unfolding b1 .
  have d0: "base64_decode ''IyEvYmluL2Jhc2gKZWNobyBFQ1NfQ0xVU1RFUj1jMSA+PiAvZXRjL2Vjcy9lY3MuY29uZmlnOw=='' =
       Some (''#!/bin/bash'' @ [CHR 0x0A] @ ''echo ECS_CLUSTER='' @ ''c1'' @ '' >> /etc/ecs/ecs.config;'')"
    using dec [THEN spec, of "''#!/bin/bash'' @ [CHR 0x0A] @ ''echo ECS_CLUSTER='' @ ''c1'' @ '' >> /etc/ecs/ecs.config;''"] unfolding b0 .
  have d1: "base64_decode ''IyEvYmluL2Jhc2gKZWNobyBFQ1NfQ0xVU1RFUj1jMSA+PiAvZXRjL2Vjcy9lY3MuY29uZmlnOwpta2RpciAtcCAvaG9tZS9lYzItdXNlci8uc3NoCmVjaG8gIgpzc2gtcnNhIEFBQUEiID4+IC9ob21lL2VjMi11c2VyLy5zc2gvYXV0aG9yaXplZF9rZXlzCmNob3duIC1SIGVjMi11c2VyOmVjMi11c2VyIC9ob21lL2VjMi11c2VyLy5zc2ggJiYgY2htb2QgLVIgZ28tcnd4IC9ob21lL2VjMi11c2VyLy5zc2g='' =
       Some (''#!/bin/bash'' @ [CHR 0x0A] @ ''echo ECS_CLUSTER='' @ ''c1'' @ '' >> /etc/ecs/ecs.config;'' @ [CHR 0x0A] @
          ''mkdir -p /home/ec2-user/.ssh'' @ [CHR 0x0A] @
          ''echo '' @ [CHR 0x22, CHR 0x0A] @ ''ssh-rsa AAAA'' @ [CHR 0x22] @
          '' >> /home/ec2-user/.ssh/authorized_keys'' @ [CHR 0x0A] @
          ''chown -R ec2-user:ec2-user /home/ec2-user/.ssh && chmod -R go-rwx /home/ec2-user/.ssh'')"
    using dec [THEN spec, of "''#!/bin/bash'' @ [CHR 0x0A] @ ''echo ECS_CLUSTER='' @ ''c1'' @ '' >> /etc/ecs/ecs.config;'' @ [CHR 0x0A] @
          ''mkdir -p /home/ec2-user/.ssh'' @ [CHR 0x0A] @
          ''echo '' @ [CHR 0x22, CHR 0x0A] @ ''ssh-rsa AAAA'' @ [CHR 0x22] @
          '' >> /home/ec2-user/.ssh/authorized_keys'' @ [CHR 0x0A] @
          ''chown -R ec2-user:ec2-user /home/ec2-user/.ssh && chmod -R go-rwx /home/ec2-user/.ssh''"] unfolding b1 .
  have k: "processSSHKeys [''k1'', ''k2''] =
       [''mkdir -p /home/ec2-user/.ssh'',
        ''echo '' @ [CHR 0x22, CHR 0x0A] @ ''k1'' @ [CHR 0x22] @ '' >> /home/ec2-user/.ssh/authorized_keys'',
        ''echo '' @ [CHR 0x22, CHR 0x0A] @ ''k2'' @ [CHR 0x22] @ '' >> /home/ec2-user/.ssh/authorized_keys'',
        ''chown -R ec2-user:ec2-user /home/ec2-user/.ssh && chmod -R go-rwx /home/ec2-user/.ssh'']"
    using keys by simp
  have s: "createPr (Some ?c) (\<lambda>data. Inr data) =
      Inr ''IyEvYmluL2Jhc2gKZWNobyBFQ1NfQ0xVU1RFUj1jMSA+PiAvZXRjL2Vjcy9lY3MuY29uZmlnOwpta2RpciAtcCAvaG9tZS9lYzItdXNlci8uc3NoCmVjaG8gIgpzc2gtcnNhIEFBQUEiID4+IC9ob21lL2VjMi11c2VyLy5zc2gvYXV0aG9yaXplZF9rZXlzCmNob3duIC1SIGVjMi11c2VyOmVjMi11c2VyIC9ob21lL2VjMi11c2VyLy5zc2ggJiYgY2htb2QgLVIgZ28tcnd4IC9ob21lL2VjMi11c2VyLy5zc2g=''"
    using sub v w1 by (simp add: js_to_string_def)
  from w0 d0 w1 d1 k v s show ?thesis by (intro conjI)
qed

subsection \<open>The PR number 0\<close>

lemma pr_argument_truthy: "truthy (pr_argument n)"
proof -
  have "js_number_to_string i \<noteq> []" for i
    by (simp add: js_number_to_string_def dec_digits_nonempty)
  then show ?thesis
    by (simp add: pr_argument_def truthy_def)
qed

text \<open>
  C10 (as amended). A configuration that is complete but for \<open>pr\<close> being the number 0 is
  rejected by \<open>createPr\<close> with the \<open>TypeError\<close> \<open>Instance requires pr\<close>, whatever the
  provider would have answered: validation asks for a truthy value. The string \<open>0\<close> is
  truthy: a complete configuration whose \<open>pr\<close> is the string \<open>0\<close> passes validation, its
  user data is handed to the provider, and the instance is tagged with the PR \<open>0\<close>. The
  REST handlers pass the PR number on as a string, \<open>0\<close> for the number 0 and for a
  number that cannot be read, and never a falsy value.
\<close>

theorem pr_zero_rejected:
  assumes "truthy (clusterName c)" "truthy (sgId c)" "truthy (subnetId c)" "truthy (pid c)"
  shows "(pr c = JNum 0 \<longrightarrow>
            validateCreatePrConfig (Some c) = Inl (TypeError ''Instance requires pr'')
            \<and> createPr (Some c) launch = Inl (TypeError ''Instance requires pr''))
         \<and> (pr c = JStr ''0'' \<longrightarrow>
            validateCreatePrConfig (Some c) = Inr ()
            \<and> (apiConfig c \<longrightarrow>
                 (case getECSContainerInstanceUserData (js_to_string (clusterName c)) (auth c) (sshPath c) of
                    Inl e \<Rightarrow> createPr (Some c) launch = Inl e
                  | Inr u \<Rightarrow> createPr (Some c) launch = launch u))
            \<and> (apiConfig c \<and> auth c = None \<longrightarrow>
                 (\<exists>u. getECSContainerInstanceUserData (js_to_string (clusterName c)) None (sshPath c) = Inr u
                    \<and> createPr (Some c) launch = launch u)))
         \<and> (PR_TAG K, ''0'') \<in> set (tagPrInstance K marker (JStr ''0'') (pid c) now prTTL)
         \<and> pr_argument (Some 0) = JStr ''0''
         \<and> pr_argument None = JStr ''0''
         \<and> pr_argument (Some k) = JStr (js_number_to_string k)
         \<and> truthy (pr_argument n)"
proof -
  have number: "pr c = JNum 0 \<longrightarrow>
            validateCreatePrConfig (Some c) = Inl (TypeError ''Instance requires pr'')
            \<and> createPr (Some c) launch = Inl (TypeError ''Instance requires pr'')"
    using assms
    by (simp add: createPr_def validateCreatePrConfig_def prConfigAttributes_def
        configAttributes_def config_get_def truthy_def)
  have valid: "validateCreatePrConfig (Some c) = Inr ()" if "pr c = JStr ''0''"
    using assms that
    by (simp add: validateCreatePrConfig_def prConfigAttributes_def
        configAttributes_def config_get_def truthy_def)
  have launched: "(case getECSContainerInstanceUserData (js_to_string (clusterName c)) (auth c) (sshPath c) of
                    Inl e \<Rightarrow> createPr (Some c) launch = Inl e
                  | Inr u \<Rightarrow> createPr (Some c) launch = launch u)"
    if "pr c = JStr ''0''" "apiConfig c"
    using valid [OF that(1)] that(2) by (simp add: createPr_def split: sum.splits)
  have launched_plain: "\<exists>u. getECSContainerInstanceUserData (js_to_string (clusterName c)) None (sshPath c) = Inr u
                    \<and> createPr (Some c) launch = launch u"
    if "pr c = JStr ''0''" "apiConfig c \<and> auth c = None"
  proof -
    obtain u where u: "getECSContainerInstanceUserData (js_to_string (clusterName c)) None (sshPath c) = Inr u"
      using user_data_no_auth by blast
    with launched [OF that(1)] that(2) have "createPr (Some c) launch = launch u"
      by simp
    with u show ?thesis by blast
  qed
  have string: "pr c = JStr ''0'' \<longrightarrow>
            validateCreatePrConfig (Some c) = Inr ()
            \<and> (apiConfig c \<longrightarrow>
                 (case getECSContainerInstanceUserData (js_to_string (clusterName c)) (auth c) (sshPath c) of
                    Inl e \<Rightarrow> createPr (Some c) launch = Inl e
                  | Inr u \<Rightarrow> createPr (Some c) launch = launch u))
            \<and> (apiConfig c \<and> auth c = None \<longrightarrow>
                 (\<exists>u. getECSContainerInstanceUserData (js_to_string (clusterName c)) None (sshPath c) = Inr u
                    \<and> createPr (Some c) launch = launch u))"
    using valid launched launched_plain by (intro impI conjI)
  have tag: "(PR_TAG K, ''0'') \<in> set (tagPrInstance K marker (JStr ''0'') (pid c) now prTTL)"
    by (simp add: tagPrInstance_def js_to_string_def)
  have zero: "pr_argument (Some 0) = JStr ''0''" "pr_argument None = JStr ''0''"
    by code_simp+
  have other: "pr_argument (Some k) = JStr (js_number_to_string k)"
    by (simp add: pr_argument_def sanitizePr_def)
  from number string tag zero other pr_argument_truthy [of n]
  show ?thesis by (intro conjI)
qed

theorem pr_zero_rejected_witness:
  "truthy (JStr ''c1'') \<and> truthy (JStr ''sg-1'') \<and> truthy (JStr ''subnet-1'') \<and> truthy (JStr ''proj'')
   \<and> createPr (Some \<lparr>clusterName = JStr ''c1'', sgId = JStr ''sg-1'',
      subnetId = JStr ''subnet-1'', pid = JStr ''proj'', pr = JNum 0, deployment = JUndefined,
      auth = None, sshPath = SshKeys [], apiConfig = True\<rparr>) (\<lambda>data. Inr data)
    = Inl (TypeError ''Instance requires pr'')
   \<and> validateCreatePrConfig (Some \<lparr>clusterName = JStr ''c1'', sgId = JStr ''sg-1'',
      subnetId = JStr ''subnet-1'', pid = JStr ''proj'', pr = JStr ''0'', deployment = JUndefined,
      auth = None, sshPath = SshKeys [], apiConfig = True\<rparr>) = Inr ()
   \<and> createPr (Some \<lparr>clusterName = JStr ''c1'', sgId = JStr ''sg-1'',
      subnetId = JStr ''subnet-1'', pid = JStr ''proj'', pr = JStr ''0'', deployment = JUndefined,
      auth = None, sshPath = SshKeys [], apiConfig = True\<rparr>) (\<lambda>data. Inr data)
    = Inr ''IyEvYmluL2Jhc2gKZWNobyBFQ1NfQ0xVU1RFUj1jMSA+PiAvZXRjL2Vjcy9lY3MuY29uZmlnOw==''"
proof -
  let ?n = "\<lparr>clusterName = JStr ''c1'', sgId = JStr ''sg-1'',
      subnetId = JStr ''subnet-1'', pid = JStr ''proj'', pr = JNum 0, deployment = JUndefined,
      auth = None, sshPath = SshKeys [], apiConfig = True\<rparr>"
  let ?s = "\<lparr>clusterName = JStr ''c1'', sgId = JStr ''sg-1'',
      subnetId = JStr ''subnet-1'', pid = JStr ''proj'', pr = JStr ''0'', deployment = JUndefined,
      auth = None, sshPath = SshKeys [], apiConfig = True\<rparr>"
  have t: "truthy (JStr ''c1'')" "truthy (JStr ''sg-1'')" "truthy (JStr ''subnet-1'')" "truthy (JStr ''proj'')"
    by (simp_all add: truthy_def)
  have tn: "truthy (clusterName ?n)" "truthy (sgId ?n)" "truthy (subnetId ?n)" "truthy (pid ?n)"
    using t by simp_all
  have ts: "truthy (clusterName ?s)" "truthy (sgId ?s)" "truthy (subnetId ?s)" "truthy (pid ?s)"
    using t by simp_all
  have u: "getECSContainerInstanceUserData ''c1'' None (SshKeys []) =
      Inr ''IyEvYmluL2Jhc2gKZWNobyBFQ1NfQ0xVU1RFUj1jMSA+PiAvZXRjL2Vjcy9lY3MuY29uZmlnOw==''"
    by code_simp
  from pr_zero_rejected [OF tn, of "\<lambda>data. Inr data"]
  have rejected: "createPr (Some ?n) (\<lambda>data. Inr data) = Inl (TypeError ''Instance requires pr'')"
    by simp
  note accepted = pr_zero_rejected [OF ts, of "\<lambda>data. Inr data"]
  from accepted have valid: "validateCreatePrConfig (Some ?s) = Inr ()"
    by simp
  from accepted u have launched: "createPr (Some ?s) (\<lambda>data. Inr data) =
      Inr ''IyEvYmluL2Jhc2gKZWNobyBFQ1NfQ0xVU1RFUj1jMSA+PiAvZXRjL2Vjcy9lY3MuY29uZmlnOw==''"
    by (simp add: js_to_string_def)
  from t rejected valid launched show ?thesis by (intro conjI)
qed

text \<open>
  C10, counterexample: PR number 0 as the REST handlers pass it on. The configuration
  passes validation, the user data is handed to the provider, and the tags written name
  the PR \<open>0\<close>.
\<close>

theorem createPr_accepts_pr_string_zero:
  "pr_argument (Some 0) = JStr ''0''
   \<and> validateCreatePrConfig (Some \<lparr>clusterName = JStr ''c1'', sgId = JStr ''sg-1'',
      subnetId = JStr ''subnet-1'', pid = JStr ''proj'', pr = pr_argument (Some 0),
      deployment = JUndefined, auth = None, sshPath = SshKeys [], apiConfig = True\<rparr>) = Inr ()
   \<and> createPr (Some \<lparr>clusterName = JStr ''c1'', sgId = JStr ''sg-1'',
      subnetId = JStr ''subnet-1'', pid = JStr ''proj'', pr = pr_argument (Some 0),
      deployment = JUndefined, auth = None, sshPath = SshKeys [], apiConfig = True\<rparr>)
      (\<lambda>data. Inr data)
    = Inr ''IyEvYmluL2Jhc2gKZWNobyBFQ1NfQ0xVU1RFUj1jMSA+PiAvZXRjL2Vjcy9lY3MuY29uZmlnOw==''
   \<and> tagPrInstance sample_keys ''managed'' (pr_argument (Some 0)) (JStr ''proj'') 240799000 0 =
       [(''managed'', ''true''), (''pr'', ''0''), (''project'', ''proj''), (''expires'', ''499999000'')]"
  by code_simp

section \<open>Properties of the deployment orchestration\<close>

subsection \<open>Destroy\<close>

lemma all_list_calls:
  "\<forall>x\<in>set xs. out x = Inr () \<Longrightarrow>
   all_list (map (\<lambda>x. call (ev x) (out x)) xs) s = (s, map ev xs, Inr (map (\<lambda>x. ()) xs))"
  by (induction xs) (simp_all add: resolve_def then_p_def all2_def call_def)

lemma swallow:
  "fail_p p (\<lambda>err. resolve ()) s = (fst (p s), trace_of (p s), Inr ())"
  by (auto simp: fail_p_def resolve_def trace_of_def split: prod.splits sum.splits)

lemma destroyEc2_ok:
  assumes "cluster_listContainers env = Inr arns"
    and "\<forall>arn\<in>set arns. cluster_deregister env arn = Inr ()"
    and "projectId \<noteq> []" "d \<noteq> []" "cluster \<noteq> []"
  shows "invoke (destroyEc2 env projectId d cluster) s =
     (s, [EvListContainers cluster] @ map (\<lambda>arn. EvDeregister arn cluster) arns @
         trace_of (invoke (ec2mgr_destroyDeployment env projectId d) ()), Inr ())"
proof -
  obtain p where p: "ec2mgr_destroyDeployment env projectId d = Inr p"
    using assms(3,4) by (simp add: ec2mgr_destroyDeployment_def)
  have "all_list (map (\<lambda>arn. call (EvDeregister arn cluster) (cluster_deregister env arn)) arns) s
      = (s, map (\<lambda>arn. EvDeregister arn cluster) arns, Inr (map (\<lambda>x. ()) arns))"
    using assms(2) by (rule all_list_calls)
  then show ?thesis
    using assms(1,5) p
    by (simp add: destroyEc2_def invoke_def then_p_def call_def swallow)
qed

lemma then2_same:
  "then2_p p (\<lambda>u. q) (\<lambda>err. q) s =
     (case q (fst (p s)) of (s2, t2, r) \<Rightarrow> (s2, trace_of (p s) @ t2, r))"
  by (auto simp: then2_p_def trace_of_def split: prod.splits sum.splits)

text \<open>
  C3 (as amended). With a project id, a deployment name and a resource identifier that are
  not empty, and when the container listing and every deregistration resolve, a destroy
  issues its calls in this order, whatever the other calls answer: the DNS stage (describe
  the instances, then destroy the address record), the container listing and the
  deregistrations, the instance destruction, the load balancer, the task definition, the
  cluster, the security group. The destroy resolves: a failure of the DNS stage, of the
  instance destruction or of any later stage stops nothing.
\<close>

theorem dm_destroy_stage_order:
  assumes lc: "cluster_listContainers env = Inr arns"
    and dereg: "\<forall>arn\<in>set arns. cluster_deregister env arn = Inr ()"
    and ids: "projectId \<noteq> []" "d \<noteq> []" "rid_generateRID env projectId d sha \<noteq> []"
  shows "trace_of (dm_destroy env projectId d sha ()) =
           trace_of (destroyRoutes env projectId d ())
           @ [EvListContainers (rid_generateRID env projectId d sha)]
           @ map (\<lambda>arn. EvDeregister arn (rid_generateRID env projectId d sha)) arns
           @ trace_of (invoke (ec2mgr_destroyDeployment env projectId d) ())
           @ [EvElbDestroyDeployment projectId d,
              EvTaskDestroy (rid_generateRID env projectId d sha),
              EvClusterDestroy (rid_generateRID env projectId d sha),
              EvSgDestroyDeployment projectId d]
         \<and> result_of (dm_destroy env projectId d sha ()) = Inr ()"
proof -
  let ?cn = "rid_generateRID env projectId d sha"
  have ec2: "invoke (destroyEc2 env projectId d ?cn) s =
     (s, [EvListContainers ?cn] @ map (\<lambda>arn. EvDeregister arn ?cn) arns @
         trace_of (invoke (ec2mgr_destroyDeployment env projectId d) ()), Inr ())" for s
    using lc dereg ids by (rule destroyEc2_ok)
  have first: "then2_p (destroyRoutes env projectId d)
                 (\<lambda>u. invoke (destroyEc2 env projectId d ?cn))
                 (\<lambda>err. invoke (destroyEc2 env projectId d ?cn)) () =
     ((), trace_of (destroyRoutes env projectId d ()) @ [EvListContainers ?cn] @
          map (\<lambda>arn. EvDeregister arn ?cn) arns @
          trace_of (invoke (ec2mgr_destroyDeployment env projectId d) ()), Inr ())"
    by (simp add: then2_same ec2)
  show ?thesis
    unfolding dm_destroy_def Let_def
    by (simp add: then_p_def first destroyElb_def swallow call_def trace_of_def result_of_def)
qed

theorem dm_destroy_stage_order_witness:
  "trace_of (dm_destroy (provider_ok\<lparr>task_destroy := Inl (Rejected ''gone'')\<rparr>) ''proj'' ''beta'' ''abc'' ()) =
     [EvDescribeDeployment ''proj'' ''beta'',
      EvDestroyDeploymentARecord ''proj'' ''beta'' ''1.2.3.4'',
      EvListContainers ''proj--beta--abc'',
      EvDeregister ''arn-1'' ''proj--beta--abc'',
      EvDescribeDeployment ''proj'' ''beta'', EvStopInstances [''i-1''],
      EvTerminateInstances [''i-1''], EvWaitForTermination [''i-1''],
      EvElbDestroyDeployment ''proj'' ''beta'',
      EvTaskDestroy ''proj--beta--abc'', EvClusterDestroy ''proj--beta--abc'',
      EvSgDestroyDeployment ''proj'' ''beta'']
   \<and> result_of (dm_destroy (provider_ok\<lparr>task_destroy := Inl (Rejected ''gone'')\<rparr>) ''proj'' ''beta'' ''abc'' ()) = Inr ()"
proof -
  let ?env = "provider_ok\<lparr>task_destroy := Inl (Rejected ''gone'')\<rparr>"
  have lc: "cluster_listContainers ?env = Inr [''arn-1'']"
    and dereg: "\<forall>arn\<in>set [''arn-1'']. cluster_deregister ?env arn = Inr ()"
    and ids: "''proj'' \<noteq> []" "''beta'' \<noteq> []" "rid_generateRID ?env ''proj'' ''beta'' ''abc'' \<noteq> []"
    by (simp_all add: provider_ok_def)
  have routes: "trace_of (destroyRoutes ?env ''proj'' ''beta'' ()) =
      [EvDescribeDeployment ''proj'' ''beta'', EvDestroyDeploymentARecord ''proj'' ''beta'' ''1.2.3.4'']"
    by code_simp
  have ec2: "trace_of (invoke (ec2mgr_destroyDeployment ?env ''proj'' ''beta'') ()) =
      [EvDescribeDeployment ''proj'' ''beta'', EvStopInstances [''i-1''],
       EvTerminateInstances [''i-1''], EvWaitForTermination [''i-1'']]"
    by code_simp
  have cn: "rid_generateRID provider_ok ''proj'' ''beta'' ''abc'' = ''proj--beta--abc''"
    by (simp add: provider_ok_def)
  from dm_destroy_stage_order [OF lc dereg ids] show ?thesis
    by (simp add: routes ec2 cn)
qed

text \<open>
  C3, counterexample: with every call succeeding, the task definition is destroyed after
  the instances and the load balancer, not before them.
\<close>

theorem dm_destroy_task_after_instances:
  "trace_of (dm_destroy provider_ok ''proj'' ''beta'' ''abc'' ()) =
     [EvDescribeDeployment ''proj'' ''beta'',
      EvDestroyDeploymentARecord ''proj'' ''beta'' ''1.2.3.4'',
      EvListContainers ''proj--beta--abc'',
      EvDeregister ''arn-1'' ''proj--beta--abc'',
      EvDescribeDeployment ''proj'' ''beta'', EvStopInstances [''i-1''],
      EvTerminateInstances [''i-1''], EvWaitForTermination [''i-1''],
      EvElbDestroyDeployment ''proj'' ''beta'',
      EvTaskDestroy ''proj--beta--abc'', EvClusterDestroy ''proj--beta--abc'',
      EvSgDestroyDeployment ''proj'' ''beta'']"
  by code_simp

text \<open>
  C2. A destroy on the provider where everything exists resolves; a second destroy, on the
  provider as the first one leaves it, is rejected when the containers of the removed
  cluster are listed, and the load balancer, task, cluster and security-group stages are
  never issued.
\<close>

theorem dm_destroy_second_call_rejects:
  "result_of (dm_destroy provider_ok ''proj'' ''beta'' ''abc'' ()) = Inr ()
   \<and> result_of (dm_destroy provider_after_destroy ''proj'' ''beta'' ''abc'' ()) =
       Inl (Rejected ''ClusterNotFoundException'')
   \<and> trace_of (dm_destroy provider_after_destroy ''proj'' ''beta'' ''abc'' ()) =
       [EvDescribeDeployment ''proj'' ''beta'', EvListContainers ''proj--beta--abc'']"
  by code_simp

subsection \<open>Create\<close>

lemma dm_create_throws:
  "dm_create env projectId d sha = Inl (TypeError ''subnet.describeProject is not a function'')"
  by (simp add: dm_create_def subnetManager_exports_def)

lemma createEc2_ok:
  assumes "groupId \<noteq> []" "cluster \<noteq> []" "p \<noteq> []" "d \<noteq> []" "subnet \<noteq> []"
    and "\<forall>userData. ec2_launch env userData = Inr results"
  shows "createEc2 env groupId cluster p d subnet sha =
     Inr (call (EvEc2CreateDeployment
            \<lparr>clusterName = JStr cluster, sgId = JStr groupId, subnetId = JStr subnet,
             pid = JStr p, pr = JUndefined, deployment = JStr d, auth = None,
             sshPath = SshPath (ssh_public_keys env), apiConfig = True\<rparr>) (Inr results))"
proof -
  let ?c = "\<lparr>clusterName = JStr cluster, sgId = JStr groupId, subnetId = JStr subnet,
                pid = JStr p, pr = JUndefined, deployment = JStr d, auth = None,
                sshPath = SshPath (ssh_public_keys env), apiConfig = True\<rparr>"
  have v: "validateCreateDeploymentConfig (Some ?c) = Inr ()"
    using assms(1-5)
    by (simp add: validateCreateDeploymentConfig_def deploymentConfigAttributes_def
        configAttributes_def config_get_def truthy_def)
  obtain u where u: "getECSContainerInstanceUserData (js_to_string (clusterName ?c)) (auth ?c) (sshPath ?c) = Inr u"
    using user_data_no_auth [of "js_to_string (clusterName ?c)" "sshPath ?c"] by auto
  have "createDeployment (Some ?c) (ec2_launch env) = Inr results"
    using v u assms(6) by (simp add: createDeployment_def)
  with v show ?thesis
    by (simp add: createEc2_def Let_def)
qed

lemma wiring_swallowed:
  assumes "c1 = Inl e1 \<or> c2 = Inl e2 \<or> c3 = Inl e3"
  shows "fail_p
           (then_p (all2 (call ev1 c1) (all2 (call ev2 c2) (call ev3 c3)))
              (\<lambda>(url, rest). resolve (Some url)))
           (\<lambda>err. resolve None) s = (s, [ev1, ev2, ev3], Inr None)"
  using assms
  by (auto simp: fail_p_def then_p_def all2_def call_def resolve_def split: sum.splits)

text \<open>
  C4 (as amended). When the security group, the cluster, the instance (the launch answering
  with at least one reservation) and the load balancer have been created and the CNAME
  creation, the instance registration or the health-check configuration is rejected, the
  three wiring calls have all been issued, the wiring step resolves with \<open>undefined\<close>
  (\<open>None\<close>), the task definition is still created after it, and the create sequence
  \<open>createCluster\<close> resolves with \<open>undefined\<close> when that creation succeeds.
\<close>

theorem createCluster_wiring_failure_swallowed:
  assumes sg: "securityGroup_createDeployment env = Inr groupId"
    and cl: "cluster_create env = Inr ()"
    and ids: "groupId \<noteq> []" "rid_generateRID env p d sha \<noteq> []" "p \<noteq> []" "d \<noteq> []" "subnet \<noteq> []"
    and launch: "\<forall>userData. ec2_launch env userData = Inr results" and some: "results \<noteq> []"
    and lb: "elb_createDeployment env = Inr lb"
    and wiring: "route53_createDeploymentCNameRecord env = Inl e1
                 \<or> elb_registerInstances env = Inl e2
                 \<or> elb_configureHealthCheck env = Inl e3"
    and task: "task_create env = Inr ()"
  shows "result_of (invoke (createElbEc2 env groupId (rid_generateRID env p d sha) p d subnet sha) ()) = Inr None
         \<and> result_of (createCluster env subnet p d sha ()) = Inr None
         \<and> (\<exists>instanceId. getIdFromEc2Results results = Inr instanceId
              \<and> trace_of (createCluster env subnet p d sha ()) =
                  [EvSgCreateDeployment p d sha,
                   EvClusterCreate (rid_generateRID env p d sha),
                   EvEc2CreateDeployment
                     \<lparr>clusterName = JStr (rid_generateRID env p d sha), sgId = JStr groupId,
                      subnetId = JStr subnet, pid = JStr p, pr = JUndefined, deployment = JStr d,
                      auth = None, sshPath = SshPath (ssh_public_keys env), apiConfig = True\<rparr>,
                   EvElbCreateDeployment p d subnet groupId,
                   EvCreateDeploymentCNameRecord p d (elb_dns lb),
                   EvRegisterInstances (elb_id lb) [instanceId],
                   EvConfigureHealthCheck (elb_id lb),
                   EvTaskCreate (rid_generateRID env p d sha)])"
proof -
  let ?cn = "rid_generateRID env p d sha"
  let ?c = "\<lparr>clusterName = JStr ?cn, sgId = JStr groupId,
             subnetId = JStr subnet, pid = JStr p, pr = JUndefined, deployment = JStr d,
             auth = None, sshPath = SshPath (ssh_public_keys env), apiConfig = True\<rparr>"
  have c: "createEc2 env groupId ?cn p d subnet sha = Inr (call (EvEc2CreateDeployment ?c) (Inr results))"
    using createEc2_ok [OF ids(1,2,3,4,5) launch] .
  obtain iid where iid: "getIdFromEc2Results results = Inr iid"
    using some by (cases results) (auto simp: getIdFromEc2Results_def)
  define w :: "(unit, dm_event, string option) promise" where
    "w = fail_p
           (then_p (all2 (call (EvCreateDeploymentCNameRecord p d (elb_dns lb)) (route53_createDeploymentCNameRecord env))
                      (all2 (call (EvRegisterInstances (elb_id lb) [iid]) (elb_registerInstances env))
                            (call (EvConfigureHealthCheck (elb_id lb)) (elb_configureHealthCheck env))))
              (\<lambda>(url, rest). resolve (Some url)))
           (\<lambda>err. resolve None)"
  have w: "w () = ((), [EvCreateDeploymentCNameRecord p d (elb_dns lb),
                        EvRegisterInstances (elb_id lb) [iid],
                        EvConfigureHealthCheck (elb_id lb)], Inr None)"
    unfolding w_def using wiring by (rule wiring_swallowed)
  have "invoke (createElbEc2 env groupId ?cn p d subnet sha) () =
      (case w () of (s2, t2, r) \<Rightarrow>
         (s2, [EvEc2CreateDeployment ?c, EvElbCreateDeployment p d subnet groupId] @ t2, r))"
    by (simp add: createElbEc2_def c invoke_def then_p_def all2_def call_def lb iid w_def)
  then have elb: "invoke (createElbEc2 env groupId ?cn p d subnet sha) () =
      ((), [EvEc2CreateDeployment ?c, EvElbCreateDeployment p d subnet groupId,
            EvCreateDeploymentCNameRecord p d (elb_dns lb), EvRegisterInstances (elb_id lb) [iid],
            EvConfigureHealthCheck (elb_id lb)], Inr None)"
    by (subst (asm) w) simp
  have cluster: "createCluster env subnet p d sha () =
      ((), [EvSgCreateDeployment p d sha, EvClusterCreate ?cn, EvEc2CreateDeployment ?c,
            EvElbCreateDeployment p d subnet groupId,
            EvCreateDeploymentCNameRecord p d (elb_dns lb), EvRegisterInstances (elb_id lb) [iid],
            EvConfigureHealthCheck (elb_id lb), EvTaskCreate ?cn], Inr None)"
    by (simp add: createCluster_def Let_def then_p_def all2_def call_def sg cl elb task resolve_def)
  show ?thesis
    using iid by (simp add: elb cluster result_of_def trace_of_def)
qed

theorem createCluster_wiring_failure_swallowed_witness:
  "result_of (createCluster (provider_ok
        \<lparr>ec2_launch := (\<lambda>userData. Inr [\<lparr>Instances =
           [\<lparr>InstanceId = ''i-1'', InstanceTags = []\<rparr>, \<lparr>InstanceId = ''i-2'', InstanceTags = []\<rparr>]\<rparr>]),
         elb_registerInstances := Inl (Rejected ''InvalidInstance'')\<rparr>)
      ''subnet-1'' ''proj'' ''beta'' ''abc'' ()) = Inr None
   \<and> trace_of (createCluster (provider_ok
        \<lparr>ec2_launch := (\<lambda>userData. Inr [\<lparr>Instances =
           [\<lparr>InstanceId = ''i-1'', InstanceTags = []\<rparr>, \<lparr>InstanceId = ''i-2'', InstanceTags = []\<rparr>]\<rparr>]),
         elb_registerInstances := Inl (Rejected ''InvalidInstance'')\<rparr>)
      ''subnet-1'' ''proj'' ''beta'' ''abc'' ()) =
       [EvSgCreateDeployment ''proj'' ''beta'' ''abc'',
        EvClusterCreate ''proj--beta--abc'',
        EvEc2CreateDeployment
          \<lparr>clusterName = JStr ''proj--beta--abc'', sgId = JStr ''sg-1'',
           subnetId = JStr ''subnet-1'', pid = JStr ''proj'', pr = JUndefined,
           deployment = JStr ''beta'', auth = None, sshPath = SshPath (Inr []), apiConfig = True\<rparr>,
        EvElbCreateDeployment ''proj'' ''beta'' ''subnet-1'' ''sg-1'',
        EvCreateDeploymentCNameRecord ''proj'' ''beta'' ''elb-1.example.com'',
        EvRegisterInstances ''elb-1'' [''i-2''],
        EvConfigureHealthCheck ''elb-1'',
        EvTaskCreate ''proj--beta--abc'']
   \<and> result_of (invoke (createElbEc2 (provider_ok
        \<lparr>ec2_launch := (\<lambda>userData. Inr [\<lparr>Instances =
           [\<lparr>InstanceId = ''i-1'', InstanceTags = []\<rparr>, \<lparr>InstanceId = ''i-2'', InstanceTags = []\<rparr>]\<rparr>]),
         elb_registerInstances := Inl (Rejected ''InvalidInstance'')\<rparr>)
        ''sg-1'' ''proj--beta--abc'' ''proj'' ''beta'' ''subnet-1'' ''abc'') ()) = Inr None"
proof -
  let ?env = "provider_ok
        \<lparr>ec2_launch := (\<lambda>userData. Inr [\<lparr>Instances =
           [\<lparr>InstanceId = ''i-1'', InstanceTags = []\<rparr>, \<lparr>InstanceId = ''i-2'', InstanceTags = []\<rparr>]\<rparr>]),
         elb_registerInstances := Inl (Rejected ''InvalidInstance'')\<rparr>"
  let ?results = "[\<lparr>Instances =
      [\<lparr>InstanceId = ''i-1'', InstanceTags = []\<rparr>, \<lparr>InstanceId = ''i-2'', InstanceTags = []\<rparr>]\<rparr>]"
  have rid: "rid_generateRID ?env ''proj'' ''beta'' ''abc'' = ''proj--beta--abc''"
    by (simp add: provider_ok_def)
  have keys: "ssh_public_keys ?env = Inr []"
    by (simp add: provider_ok_def)
  have iid: "getIdFromEc2Results ?results = Inr ''i-2''"
    by (simp add: getIdFromEc2Results_def)
  have "result_of (invoke (createElbEc2 ?env ''sg-1'' (rid_generateRID ?env ''proj'' ''beta'' ''abc'')
            ''proj'' ''beta'' ''subnet-1'' ''abc'') ()) = Inr None
         \<and> result_of (createCluster ?env ''subnet-1'' ''proj'' ''beta'' ''abc'' ()) = Inr None
         \<and> (\<exists>instanceId. getIdFromEc2Results ?results = Inr instanceId
              \<and> trace_of (createCluster ?env ''subnet-1'' ''proj'' ''beta'' ''abc'' ()) =
                  [EvSgCreateDeployment ''proj'' ''beta'' ''abc'',
                   EvClusterCreate (rid_generateRID ?env ''proj'' ''beta'' ''abc''),
                   EvEc2CreateDeployment
                     \<lparr>clusterName = JStr (rid_generateRID ?env ''proj'' ''beta'' ''abc''), sgId = JStr ''sg-1'',
                      subnetId = JStr ''subnet-1'', pid = JStr ''proj'', pr = JUndefined, deployment = JStr ''beta'',
                      auth = None, sshPath = SshPath (ssh_public_keys ?env), apiConfig = True\<rparr>,
                   EvElbCreateDeployment ''proj'' ''beta'' ''subnet-1'' ''sg-1'',
                   EvCreateDeploymentCNameRecord ''proj'' ''beta''
                     (elb_dns \<lparr>elb_id = ''elb-1'', elb_dns = ''elb-1.example.com''\<rparr>),
                   EvRegisterInstances (elb_id \<lparr>elb_id = ''elb-1'', elb_dns = ''elb-1.example.com''\<rparr>) [instanceId],
                   EvConfigureHealthCheck (elb_id \<lparr>elb_id = ''elb-1'', elb_dns = ''elb-1.example.com''\<rparr>),
                   EvTaskCreate (rid_generateRID ?env ''proj'' ''beta'' ''abc'')])"
    by (rule createCluster_wiring_failure_swallowed
        [where ?e1.0 = "Rejected ''InvalidInstance''" and ?e2.0 = "Rejected ''InvalidInstance''"
          and ?e3.0 = "Rejected ''InvalidInstance''"
          and results = ?results
          and lb = "\<lparr>elb_id = ''elb-1'', elb_dns = ''elb-1.example.com''\<rparr>"])
      (simp_all add: provider_ok_def)
  then show ?thesis
    unfolding rid keys iid by simp
qed

text \<open>
  C4, counterexample: a rejected load-balancer creation is not swallowed. It rejects the
  create sequence, and neither the wiring calls nor the task creation are issued.
\<close>

theorem createCluster_elb_failure_propagates:
  "result_of (createCluster (provider_ok\<lparr>elb_createDeployment := Inl (Rejected ''TooManyLoadBalancers'')\<rparr>)
      ''subnet-1'' ''proj'' ''beta'' ''abc'' ()) = Inl (Rejected ''TooManyLoadBalancers'')
   \<and> trace_of (createCluster (provider_ok\<lparr>elb_createDeployment := Inl (Rejected ''TooManyLoadBalancers'')\<rparr>)
      ''subnet-1'' ''proj'' ''beta'' ''abc'' ()) =
       [EvSgCreateDeployment ''proj'' ''beta'' ''abc'',
        EvClusterCreate ''proj--beta--abc'',
        EvEc2CreateDeployment
          \<lparr>clusterName = JStr ''proj--beta--abc'', sgId = JStr ''sg-1'',
           subnetId = JStr ''subnet-1'', pid = JStr ''proj'', pr = JUndefined,
           deployment = JStr ''beta'', auth = None, sshPath = SshPath (Inr []), apiConfig = True\<rparr>,
        EvElbCreateDeployment ''proj'' ''beta'' ''subnet-1'' ''sg-1'']"
  by code_simp

section \<open>Properties of the project facade\<close>

lemma state_ready: "ready st \<Longrightarrow> state env st = (st, [], Inr ())"
  by (simp add: state_def ready_def resolve_def)

subsection \<open>Project teardown\<close>

text \<open>
  C7. When the instance query of \<open>destroy\<close> answers a list that is not empty, the call is
  rejected and neither the subnet nor the ACL destroy is issued (with the context
  initialised the rejection is the error \<open>Cannot destroy project while open pull requests
  exist\<close> and the query is the only call). A subnet or ACL destroy is issued only when the
  query answered the empty list, the ACL destroy only after the subnet destroy resolved.
\<close>

theorem pm_destroy_guarded:
  "(\<forall>list. ec2_describeProject env projectId = Inr list \<and> list \<noteq> [] \<longrightarrow>
      (\<exists>e. result_of (pm_destroy env projectId st) = Inl e)
      \<and> (\<forall>q. EvSubnetDestroy q \<notin> set (trace_of (pm_destroy env projectId st)))
      \<and> (\<forall>q. EvAclDestroy q \<notin> set (trace_of (pm_destroy env projectId st))))
   \<and> (\<forall>list. ready st \<and> ec2_describeProject env projectId = Inr list \<and> list \<noteq> [] \<longrightarrow>
      result_of (pm_destroy env projectId st) =
        Inl (Error ''ProjectManager: Cannot destroy project while open pull requests exist'')
      \<and> trace_of (pm_destroy env projectId st) = [EvEc2DescribeProject projectId])
   \<and> (\<forall>q. EvSubnetDestroy q \<in> set (trace_of (pm_destroy env projectId st)) \<longrightarrow>
          ec2_describeProject env projectId = Inr [])
   \<and> (\<forall>q. EvAclDestroy q \<in> set (trace_of (pm_destroy env projectId st)) \<longrightarrow>
          ec2_describeProject env projectId = Inr [] \<and> subnet_destroy env projectId = Inr ())
   \<and> (ready st \<and> ec2_describeProject env projectId = Inr [] \<longrightarrow>
        trace_of (pm_destroy env projectId st) =
          [EvEc2DescribeProject projectId, EvSubnetDestroy projectId] @
          (case subnet_destroy env projectId of Inl e \<Rightarrow> [] | Inr u \<Rightarrow> [EvAclDestroy projectId])
        \<and> result_of (pm_destroy env projectId st) =
          (case subnet_destroy env projectId of Inl e \<Rightarrow> Inl e | Inr u \<Rightarrow> acl_destroy env projectId))"
proof -
  have init: "set (trace_of (state env st)) \<subseteq> {EvVpcFindProject, EvR53FindId}"
    by (auto simp: state_def initState_def then_p_def all2_def call_def resolve_def trace_of_def
        split: sum.splits)
  obtain s1 t1 r1 where st: "state env st = (s1, t1, r1)" by (cases "state env st")
  with init have t1: "set t1 \<subseteq> {EvVpcFindProject, EvR53FindId}" by (simp add: trace_of_def)
  have rdy: "ready st \<Longrightarrow> t1 = [] \<and> r1 = Inr ()"
    using st by (simp add: state_ready)
  show ?thesis
    using t1 rdy
    by (auto simp: pm_destroy_def st then_p_def call_def reject_def
        result_of_def trace_of_def split: sum.splits)
qed

theorem pm_destroy_guarded_witness:
  "ready initialised
   \<and> result_of (pm_destroy sample_account ''proj'' initialised) =
       Inl (Error ''ProjectManager: Cannot destroy project while open pull requests exist'')
   \<and> trace_of (pm_destroy sample_account ''proj'' initialised) = [EvEc2DescribeProject ''proj'']
   \<and> trace_of (pm_destroy (sample_account\<lparr>ec2_describeProject := (\<lambda>p. Inr [])\<rparr>) ''proj'' initialised) =
       [EvEc2DescribeProject ''proj'', EvSubnetDestroy ''proj'', EvAclDestroy ''proj'']"
proof -
  let ?empty = "sample_account\<lparr>ec2_describeProject := (\<lambda>p. Inr [])\<rparr>"
  have rdy: "ready initialised" by (simp add: ready_def initialised_def)
  have described: "ec2_describeProject sample_account ''proj'' = Inr sample_reservations"
    by (simp add: sample_account_def)
  have some: "sample_reservations \<noteq> []" by (simp add: sample_reservations_def)
  from pm_destroy_guarded [of sample_account "''proj''" initialised]
  have "\<forall>list. ready initialised \<and> ec2_describeProject sample_account ''proj'' = Inr list \<and> list \<noteq> [] \<longrightarrow>
      result_of (pm_destroy sample_account ''proj'' initialised) =
        Inl (Error ''ProjectManager: Cannot destroy project while open pull requests exist'')
      \<and> trace_of (pm_destroy sample_account ''proj'' initialised) = [EvEc2DescribeProject ''proj'']"
    by (elim conjE)
  with rdy described some have guarded:
    "result_of (pm_destroy sample_account ''proj'' initialised) =
        Inl (Error ''ProjectManager: Cannot destroy project while open pull requests exist'')"
    "trace_of (pm_destroy sample_account ''proj'' initialised) = [EvEc2DescribeProject ''proj'']"
    by blast+
  have none: "ec2_describeProject ?empty ''proj'' = Inr []"
    and sub: "subnet_destroy ?empty ''proj'' = Inr ()"
    by (simp_all add: sample_account_def)
  from pm_destroy_guarded [of ?empty "''proj''" initialised]
  have "ready initialised \<and> ec2_describeProject ?empty ''proj'' = Inr [] \<longrightarrow>
        trace_of (pm_destroy ?empty ''proj'' initialised) =
          [EvEc2DescribeProject ''proj'', EvSubnetDestroy ''proj''] @
          (case subnet_destroy ?empty ''proj'' of Inl e \<Rightarrow> [] | Inr u \<Rightarrow> [EvAclDestroy ''proj''])
        \<and> result_of (pm_destroy ?empty ''proj'' initialised) =
          (case subnet_destroy ?empty ''proj'' of Inl e \<Rightarrow> Inl e | Inr u \<Rightarrow> acl_destroy ?empty ''proj'')"
    by (elim conjE)
  with rdy none have "trace_of (pm_destroy ?empty ''proj'' initialised) =
          [EvEc2DescribeProject ''proj'', EvSubnetDestroy ''proj''] @
          (case subnet_destroy ?empty ''proj'' of Inl e \<Rightarrow> [] | Inr u \<Rightarrow> [EvAclDestroy ''proj''])"
    by blast
  then have emptied: "trace_of (pm_destroy ?empty ''proj'' initialised) =
       [EvEc2DescribeProject ''proj'', EvSubnetDestroy ''proj'', EvAclDestroy ''proj'']"
    by (simp add: sample_account_def)
  from rdy guarded emptied show ?thesis by blast
qed

subsection \<open>Redeploy\<close>

lemma pm_create_ready:
  "ready st \<Longrightarrow> fst (pm_create env projectId st) = st
     \<and> (\<forall>a b. EvPullRequestDestroy a b \<notin> set (trace_of (pm_create env projectId st)))
     \<and> (\<forall>a b. EvPullRequestCreate a b \<notin> set (trace_of (pm_create env projectId st)))"
  by (auto simp: pm_create_def state_ready then_p_def all2_def call_def resolve_def trace_of_def
      split: sum.splits prod.splits)

lemma findOrCreateProject_ready:
  assumes "ready st"
  shows "fst (findOrCreateProject env projectId st) = st"
    and "EvPullRequestDestroy a b \<notin> set (trace_of (findOrCreateProject env projectId st))"
    and "EvPullRequestCreate c d \<notin> set (trace_of (findOrCreateProject env projectId st))"
    and "subnet_findProject env projectId = Inr () \<Longrightarrow>
         findOrCreateProject env projectId st = (st, [EvSubnetFindProject projectId], Inr ())"
proof -
  obtain s1 t1 r1 where c: "pm_create env projectId st = (s1, t1, r1)"
    by (cases "pm_create env projectId st")
  with pm_create_ready [OF assms, of env projectId]
  have s1: "s1 = st" and t1: "\<forall>a b. EvPullRequestDestroy a b \<notin> set t1"
    "\<forall>a b. EvPullRequestCreate a b \<notin> set t1"
    by (simp_all add: trace_of_def)
  show "fst (findOrCreateProject env projectId st) = st"
    using assms s1
    by (auto simp: findOrCreateProject_def state_ready then_p_def fail_p_def call_def c resolve_def
        split: sum.splits)
  show "EvPullRequestDestroy a b \<notin> set (trace_of (findOrCreateProject env projectId st))"
    using assms t1
    by (auto simp: findOrCreateProject_def state_ready then_p_def fail_p_def call_def c resolve_def
        trace_of_def split: sum.splits)
  show "EvPullRequestCreate c d \<notin> set (trace_of (findOrCreateProject env projectId st))"
    using assms t1
    by (auto simp: findOrCreateProject_def state_ready then_p_def fail_p_def call_def c resolve_def
        trace_of_def split: sum.splits)
  show "subnet_findProject env projectId = Inr () \<Longrightarrow>
         findOrCreateProject env projectId st = (st, [EvSubnetFindProject projectId], Inr ())"
    using assms
    by (simp add: findOrCreateProject_def state_ready then_p_def fail_p_def call_def)
qed

lemma pr_tagged_iff:
  "pr_tagged K prs pr_no \<longleftrightarrow>
     (\<exists>r \<in> set prs. \<exists>i \<in> set (Instances r). tags_object (InstanceTags i) (PR_TAG K) = Some pr_no)"
proof -
  have "pr_tagged K prs pr_no \<longleftrightarrow>
      Some pr_no \<in> (\<lambda>obj. obj (PR_TAG K)) `
        (\<Union>r \<in> set prs. (\<lambda>inst. tags_object (InstanceTags inst)) ` set (Instances r))"
    by (simp add: pr_tagged_def getTagsFromInstances_def Let_def)
  also have "\<dots> \<longleftrightarrow>
      (\<exists>r \<in> set prs. \<exists>i \<in> set (Instances r). Some pr_no = tags_object (InstanceTags i) (PR_TAG K))"
    by (simp add: image_iff Bex_def) blast
  also have "\<dots> \<longleftrightarrow>
      (\<exists>r \<in> set prs. \<exists>i \<in> set (Instances r). tags_object (InstanceTags i) (PR_TAG K) = Some pr_no)"
    by (simp add: eq_commute)
  finally show ?thesis .
qed

lemma findOrCreateProject_bootstrap:
  assumes "ready st" and "subnet_findProject env projectId = Inl e"
    and "result_of (findOrCreateProject env projectId st) = Inr ()"
  shows "\<exists>routeId aclId repoArn registryId.
           route_findDefault env = Inr routeId \<and> acl_create env projectId = Inr aclId
           \<and> ecr_create env projectId = Inr (repoArn, registryId)
           \<and> trace_of (findOrCreateProject env projectId st) =
               [EvSubnetFindProject projectId, EvRouteFindDefault, EvAclCreate projectId,
                EvEcrCreate projectId, EvSubnetCreate projectId routeId aclId,
                EvIamCreateProjectUser projectId repoArn]"
  using assms
  by (auto simp: findOrCreateProject_def pm_create_def state_ready then_p_def fail_p_def all2_def
      call_def resolve_def trace_of_def result_of_def split: sum.splits prod.splits)

text \<open>
  C6 (as amended). With the context initialised, the project found or created and the
  instance query answered: when an instance of the answer carries the PR's tag, \<open>createPR\<close>
  issues the PR destroy sequence right after the query and issues the PR create only when
  that destroy has resolved (a rejected destroy rejects \<open>createPR\<close> and the PR is not
  created); when no instance carries the tag, no destroy is issued and the PR create follows
  the query. Nothing before the query is a PR create or destroy. When the project's subnet is
  found the lookup is the only call before the query, so nothing is created before the
  destroy; when the lookup is rejected the project's own resources (network ACL, registry
  repository, subnet, IAM user) are created before the query, and so before the destroy.
\<close>

theorem createPR_destroys_first:
  assumes rdy: "ready st"
    and found: "result_of (findOrCreateProject env projectId st) = Inr ()"
    and described: "ec2Mgr_describeProject env projectId = Inr prs"
  shows "trace_of (createPR K env projectId pr_no st) =
           trace_of (findOrCreateProject env projectId st)
           @ [EvEc2MgrDescribeProject projectId]
           @ (if pr_tagged K prs pr_no
              then EvPullRequestDestroy (Some projectId) pr_no #
                   (case pullRequest_destroy env (Some projectId) pr_no of
                      Inl e \<Rightarrow> []
                    | Inr u \<Rightarrow> [EvPullRequestCreate projectId pr_no])
              else [EvPullRequestCreate projectId pr_no])
         \<and> result_of (createPR K env projectId pr_no st) =
             (if pr_tagged K prs pr_no
              then (case pullRequest_destroy env (Some projectId) pr_no of
                      Inl e \<Rightarrow> Inl e
                    | Inr u \<Rightarrow> pullRequest_create env projectId pr_no)
              else pullRequest_create env projectId pr_no)
         \<and> (pr_tagged K prs pr_no \<longleftrightarrow>
              (\<exists>r \<in> set prs. \<exists>i \<in> set (Instances r).
                 tags_object (InstanceTags i) (PR_TAG K) = Some pr_no))
         \<and> (\<forall>a b. EvPullRequestCreate a b \<notin> set (trace_of (findOrCreateProject env projectId st)))
         \<and> (\<forall>a b. EvPullRequestDestroy a b \<notin> set (trace_of (findOrCreateProject env projectId st)))
         \<and> (subnet_findProject env projectId = Inr () \<longrightarrow>
              trace_of (findOrCreateProject env projectId st) = [EvSubnetFindProject projectId])
         \<and> (\<forall>e. subnet_findProject env projectId = Inl e \<longrightarrow>
              (\<exists>routeId aclId repoArn registryId.
                 route_findDefault env = Inr routeId \<and> acl_create env projectId = Inr aclId
                 \<and> ecr_create env projectId = Inr (repoArn, registryId)
                 \<and> trace_of (findOrCreateProject env projectId st) =
                     [EvSubnetFindProject projectId, EvRouteFindDefault, EvAclCreate projectId,
                      EvEcrCreate projectId, EvSubnetCreate projectId routeId aclId,
                      EvIamCreateProjectUser projectId repoArn]))"
proof -
  obtain t where f: "findOrCreateProject env projectId st = (st, t, Inr ())"
    using findOrCreateProject_ready(1) [OF rdy, of env projectId] found
    by (cases "findOrCreateProject env projectId st") (simp add: result_of_def)
  have ex: "prExists K env projectId pr_no st =
      (st, [EvEc2MgrDescribeProject projectId], Inr (pr_tagged K prs pr_no))"
    using rdy described
    by (simp add: prExists_def listDeployments_def state_ready then_p_def call_def resolve_def)
  have d: "destroyPR env (Some projectId) (Some pr_no) st =
      (st, [EvPullRequestDestroy (Some projectId) pr_no], pullRequest_destroy env (Some projectId) pr_no)"
    using rdy by (simp add: destroyPR_def state_ready then_p_def call_def)
  have main: "createPR K env projectId pr_no st =
      (st, t @ [EvEc2MgrDescribeProject projectId]
           @ (if pr_tagged K prs pr_no
              then EvPullRequestDestroy (Some projectId) pr_no #
                   (case pullRequest_destroy env (Some projectId) pr_no of
                      Inl e \<Rightarrow> []
                    | Inr u \<Rightarrow> [EvPullRequestCreate projectId pr_no])
              else [EvPullRequestCreate projectId pr_no]),
       (if pr_tagged K prs pr_no
              then (case pullRequest_destroy env (Some projectId) pr_no of
                      Inl e \<Rightarrow> Inl e
                    | Inr u \<Rightarrow> pullRequest_create env projectId pr_no)
              else pullRequest_create env projectId pr_no))"
    using rdy
    by (simp add: createPR_def state_ready then_p_def f ex d call_def resolve_def split: sum.splits)
  have order: "trace_of (createPR K env projectId pr_no st) =
           trace_of (findOrCreateProject env projectId st)
           @ [EvEc2MgrDescribeProject projectId]
           @ (if pr_tagged K prs pr_no
              then EvPullRequestDestroy (Some projectId) pr_no #
                   (case pullRequest_destroy env (Some projectId) pr_no of
                      Inl e \<Rightarrow> []
                    | Inr u \<Rightarrow> [EvPullRequestCreate projectId pr_no])
              else [EvPullRequestCreate projectId pr_no])"
    and outcome: "result_of (createPR K env projectId pr_no st) =
             (if pr_tagged K prs pr_no
              then (case pullRequest_destroy env (Some projectId) pr_no of
                      Inl e \<Rightarrow> Inl e
                    | Inr u \<Rightarrow> pullRequest_create env projectId pr_no)
              else pullRequest_create env projectId pr_no)"
    by (simp_all add: main f trace_of_def result_of_def)
  have no_pr: "\<forall>a b. EvPullRequestCreate a b \<notin> set (trace_of (findOrCreateProject env projectId st))"
    "\<forall>a b. EvPullRequestDestroy a b \<notin> set (trace_of (findOrCreateProject env projectId st))"
    using findOrCreateProject_ready(2,3) [OF rdy, of _ _ env projectId] by blast+
  have lookup: "subnet_findProject env projectId = Inr () \<longrightarrow>
              trace_of (findOrCreateProject env projectId st) = [EvSubnetFindProject projectId]"
    using findOrCreateProject_ready(4) [OF rdy, of env projectId] by (simp add: trace_of_def)
  have bootstrap: "\<forall>e. subnet_findProject env projectId = Inl e \<longrightarrow>
              (\<exists>routeId aclId repoArn registryId.
                 route_findDefault env = Inr routeId \<and> acl_create env projectId = Inr aclId
                 \<and> ecr_create env projectId = Inr (repoArn, registryId)
                 \<and> trace_of (findOrCreateProject env projectId st) =
                     [EvSubnetFindProject projectId, EvRouteFindDefault, EvAclCreate projectId,
                      EvEcrCreate projectId, EvSubnetCreate projectId routeId aclId,
                      EvIamCreateProjectUser projectId repoArn])"
    using findOrCreateProject_bootstrap [OF rdy _ found] by blast
  from order outcome pr_tagged_iff [of K prs pr_no] no_pr lookup bootstrap
  show ?thesis by (intro conjI)
qed

theorem createPR_destroys_first_witness:
  "ready initialised
   \<and> result_of (findOrCreateProject sample_account ''proj'' initialised) = Inr ()
   \<and> pr_tagged sample_keys sample_reservations ''7''
   \<and> trace_of (createPR sample_keys sample_account ''proj'' ''7'' initialised) =
       [EvSubnetFindProject ''proj'', EvEc2MgrDescribeProject ''proj'',
        EvPullRequestDestroy (Some ''proj'') ''7'', EvPullRequestCreate ''proj'' ''7'']
   \<and> \<not> pr_tagged sample_keys sample_reservations ''9''
   \<and> trace_of (createPR sample_keys sample_account ''proj'' ''9'' initialised) =
       [EvSubnetFindProject ''proj'', EvEc2MgrDescribeProject ''proj'',
        EvPullRequestCreate ''proj'' ''9'']
   \<and> result_of (createPR sample_keys sample_account ''proj'' ''9'' initialised) =
       Inr ''pr-7.proj.example.com''
   \<and> trace_of (createPR sample_keys
        (sample_account\<lparr>pullRequest_destroy := (\<lambda>p n. Inl (Rejected ''DependencyViolation''))\<rparr>)
        ''proj'' ''7'' initialised) =
       [EvSubnetFindProject ''proj'', EvEc2MgrDescribeProject ''proj'',
        EvPullRequestDestroy (Some ''proj'') ''7'']
   \<and> result_of (createPR sample_keys
        (sample_account\<lparr>pullRequest_destroy := (\<lambda>p n. Inl (Rejected ''DependencyViolation''))\<rparr>)
        ''proj'' ''7'' initialised) = Inl (Rejected ''DependencyViolation'')
   \<and> trace_of (findOrCreateProject
        (sample_account\<lparr>subnet_findProject := (\<lambda>p. Inl (Rejected ''RequestLimitExceeded''))\<rparr>)
        ''proj'' initialised) =
       [EvSubnetFindProject ''proj'', EvRouteFindDefault, EvAclCreate ''proj'', EvEcrCreate ''proj'',
        EvSubnetCreate ''proj'' ''rtb-1'' ''acl-1'', EvIamCreateProjectUser ''proj'' ''arn:repo'']"
proof -
  let ?missing = "sample_account\<lparr>subnet_findProject := (\<lambda>p. Inl (Rejected ''RequestLimitExceeded''))\<rparr>"
  let ?failing = "sample_account\<lparr>pullRequest_destroy := (\<lambda>p n. Inl (Rejected ''DependencyViolation''))\<rparr>"
  have rdy: "ready initialised" by (simp add: ready_def initialised_def)
  have lookup: "subnet_findProject sample_account ''proj'' = Inr ()"
    "subnet_findProject ?failing ''proj'' = Inr ()"
    by (simp_all add: sample_account_def)
  have found: "findOrCreateProject sample_account ''proj'' initialised =
      (initialised, [EvSubnetFindProject ''proj''], Inr ())"
    "findOrCreateProject ?failing ''proj'' initialised =
      (initialised, [EvSubnetFindProject ''proj''], Inr ())"
    using findOrCreateProject_ready(4) [OF rdy] lookup by blast+
  then have found': "result_of (findOrCreateProject sample_account ''proj'' initialised) = Inr ()"
    "result_of (findOrCreateProject ?failing ''proj'' initialised) = Inr ()"
    by (simp_all add: result_of_def)
  have described: "ec2Mgr_describeProject sample_account ''proj'' = Inr sample_reservations"
    "ec2Mgr_describeProject ?failing ''proj'' = Inr sample_reservations"
    by (simp_all add: sample_account_def)
  have tagged: "pr_tagged sample_keys sample_reservations ''7''" by code_simp
  have untagged: "\<not> pr_tagged sample_keys sample_reservations ''9''" by code_simp
  have outcomes: "pullRequest_destroy sample_account (Some ''proj'') ''7'' = Inr ()"
    "pullRequest_create sample_account ''proj'' ''9'' = Inr ''pr-7.proj.example.com''"
    "pullRequest_destroy ?failing (Some ''proj'') ''7'' = Inl (Rejected ''DependencyViolation'')"
    by (simp_all add: sample_account_def)
  note seven = createPR_destroys_first [OF rdy found'(1) described(1), of sample_keys "''7''"]
  note nine = createPR_destroys_first [OF rdy found'(1) described(1), of sample_keys "''9''"]
  note failing = createPR_destroys_first [OF rdy found'(2) described(2), of sample_keys "''7''"]
  have t7: "trace_of (createPR sample_keys sample_account ''proj'' ''7'' initialised) =
       [EvSubnetFindProject ''proj'', EvEc2MgrDescribeProject ''proj'',
        EvPullRequestDestroy (Some ''proj'') ''7'', EvPullRequestCreate ''proj'' ''7'']"
    using seven [THEN conjunct1] tagged outcomes(1) found(1) by (simp add: trace_of_def)
  have t9: "trace_of (createPR sample_keys sample_account ''proj'' ''9'' initialised) =
       [EvSubnetFindProject ''proj'', EvEc2MgrDescribeProject ''proj'',
        EvPullRequestCreate ''proj'' ''9'']"
    using nine [THEN conjunct1] untagged found(1) by (simp add: trace_of_def)
  have r9: "result_of (createPR sample_keys sample_account ''proj'' ''9'' initialised) =
       Inr ''pr-7.proj.example.com''"
    using nine [THEN conjunct2, THEN conjunct1] untagged outcomes(2) by simp
  have tf: "trace_of (createPR sample_keys ?failing ''proj'' ''7'' initialised) =
       [EvSubnetFindProject ''proj'', EvEc2MgrDescribeProject ''proj'',
        EvPullRequestDestroy (Some ''proj'') ''7'']"
    using failing [THEN conjunct1] tagged outcomes(3) found(2) by (simp add: trace_of_def)
  have rf: "result_of (createPR sample_keys ?failing ''proj'' ''7'' initialised) =
       Inl (Rejected ''DependencyViolation'')"
    using failing [THEN conjunct2, THEN conjunct1] tagged outcomes(3) by simp
  have created: "result_of (findOrCreateProject ?missing ''proj'' initialised) = Inr ()"
    by code_simp
  have answers: "ec2Mgr_describeProject ?missing ''proj'' = Inr sample_reservations"
    "subnet_findProject ?missing ''proj'' = Inl (Rejected ''RequestLimitExceeded'')"
    "route_findDefault ?missing = Inr ''rtb-1''" "acl_create ?missing ''proj'' = Inr ''acl-1''"
    "ecr_create ?missing ''proj'' = Inr (''arn:repo'', ''registry-1'')"
    by (simp_all add: sample_account_def)
  note missing = createPR_destroys_first [OF rdy created answers(1), of sample_keys "''7''"]
  from missing have "\<forall>e. subnet_findProject ?missing ''proj'' = Inl e \<longrightarrow>
              (\<exists>routeId aclId repoArn registryId.
                 route_findDefault ?missing = Inr routeId \<and> acl_create ?missing ''proj'' = Inr aclId
                 \<and> ecr_create ?missing ''proj'' = Inr (repoArn, registryId)
                 \<and> trace_of (findOrCreateProject ?missing ''proj'' initialised) =
                     [EvSubnetFindProject ''proj'', EvRouteFindDefault, EvAclCreate ''proj'',
                      EvEcrCreate ''proj'', EvSubnetCreate ''proj'' routeId aclId,
                      EvIamCreateProjectUser ''proj'' repoArn])"
    by (elim conjE)
  then have tm: "trace_of (findOrCreateProject ?missing ''proj'' initialised) =
       [EvSubnetFindProject ''proj'', EvRouteFindDefault, EvAclCreate ''proj'', EvEcrCreate ''proj'',
        EvSubnetCreate ''proj'' ''rtb-1'' ''acl-1'', EvIamCreateProjectUser ''proj'' ''arn:repo'']"
    unfolding answers by auto
  from rdy found'(1) tagged t7 untagged t9 r9 tf rf tm show ?thesis by (intro conjI)
qed

text \<open>
  C6, counterexample: the lookup of the project's subnet is rejected while instances carry
  the tag of PR 7. The network ACL, the registry repository, the subnet and the IAM user of
  the project are created before the destroy sequence of the PR is issued.
\<close>

theorem createPR_bootstrap_before_destroy:
  "trace_of (createPR sample_keys
      (sample_account\<lparr>subnet_findProject :=
         (\<lambda>p. Inl (Error (''No Clusternator Subnet Found For Project: '' @ p)))\<rparr>)
      ''proj'' ''7'' initialised) =
     [EvSubnetFindProject ''proj'', EvRouteFindDefault, EvAclCreate ''proj'', EvEcrCreate ''proj'',
      EvSubnetCreate ''proj'' ''rtb-1'' ''acl-1'', EvIamCreateProjectUser ''proj'' ''arn:repo'',
      EvEc2MgrDescribeProject ''proj'', EvPullRequestDestroy (Some ''proj'') ''7'',
      EvPullRequestCreate ''proj'' ''7'']
   \<and> pr_tagged sample_keys sample_reservations ''7''
   \<and> result_of (createPR sample_keys
      (sample_account\<lparr>subnet_findProject :=
         (\<lambda>p. Inl (Error (''No Clusternator Subnet Found For Project: '' @ p)))\<rparr>)
      ''proj'' ''7'' initialised) = Inr ''pr-7.proj.example.com''"
  by code_simp

subsection \<open>Expiry sweep\<close>

lemma destroyPR_ready:
  "ready st \<Longrightarrow> destroyPR env a b st =
     (st, [EvPullRequestDestroy a (case b of None \<Rightarrow> ''undefined'' | Some n \<Rightarrow> n)],
      pullRequest_destroy env a (case b of None \<Rightarrow> ''undefined'' | Some n \<Rightarrow> n))"
  by (simp add: destroyPR_def state_ready then_p_def call_def Let_def)

lemma all_list_fixed_state:
  assumes "\<forall>x\<in>set xs. f x st = (st, [ev x], out x)"
  shows "fst (all_list (map f xs) st) = st \<and> trace_of (all_list (map f xs) st) = map ev xs"
  using assms
proof (induction xs)
  case Nil
  then show ?case by (simp add: resolve_def trace_of_def)
next
  case (Cons x xs)
  then have ih: "fst (all_list (map f xs) st) = st" "trace_of (all_list (map f xs) st) = map ev xs"
    and x: "f x st = (st, [ev x], out x)"
    by simp_all
  obtain r where r: "all_list (map f xs) st = (st, map ev xs, r)"
    using ih by (cases "all_list (map f xs) st") (simp add: trace_of_def)
  show ?case
    by (auto simp: then_p_def all2_def x r resolve_def trace_of_def split: sum.splits prod.splits)
qed

lemma isDeadPR_expired:
  assumes "written_tags K obj"
  shows "isDeadPR K now obj \<longleftrightarrow> expired_pr K now obj"
proof (cases "obj (EXPIRES_TAG K)")
  case None
  then show ?thesis
    by (simp add: isDeadPR_def expired_pr_def js_gt_def js_to_number_opt_def)
next
  case (Some e)
  show ?thesis
    using assms Some
    by (auto simp: isDeadPR_def expired_pr_def written_tags_def js_gt_def js_to_number_opt_def
        split: option.splits)
qed

text \<open>
  C5. With the context initialised and tags as the manager writes them, one sweep lists
  the managed instances and then invokes the PR destroy path once for each instance that
  carries a PR tag and an expiry timestamp strictly less than the current time, with that
  instance's project and PR tags, in the order of the listing; it invokes it for no other
  instance, so an instance that expires later or has no PR tag causes no call.
\<close>

theorem destroyExpiredPRs_sweeps_expired:
  assumes rdy: "ready st"
    and described: "ec2Mgr_describe env = Inr d"
    and written: "\<forall>obj\<in>set (extractKeys d). written_tags K obj"
  shows "trace_of (destroyExpiredPRs K env now st) =
           EvEc2MgrDescribe #
           map (\<lambda>obj. EvPullRequestDestroy (obj (PROJECT_TAG K))
                        (case obj (PR_TAG K) of None \<Rightarrow> ''undefined'' | Some n \<Rightarrow> n))
             (filter (expired_pr K now) (extractKeys d))
         \<and> (\<forall>a n. EvPullRequestDestroy a n \<in> set (trace_of (destroyExpiredPRs K env now st)) \<longleftrightarrow>
              (\<exists>obj\<in>set (extractKeys d).
                 expired_pr K now obj \<and> obj (PROJECT_TAG K) = a \<and> obj (PR_TAG K) = Some n))"
proof -
  let ?ev = "\<lambda>obj. EvPullRequestDestroy (obj (PROJECT_TAG K))
                        (case obj (PR_TAG K) of None \<Rightarrow> ''undefined'' | Some n \<Rightarrow> n)"
  let ?dead = "filter (expired_pr K now) (extractKeys d)"
  have dead: "extractDeadPRs K now (extractKeys d) = ?dead"
    unfolding extractDeadPRs_def
    using written by (intro filter_cong refl) (simp add: isDeadPR_expired)
  have each: "\<forall>v\<in>set ?dead. destroyPR env (v (PROJECT_TAG K)) (v (PR_TAG K)) st =
      (st, [?ev v], pullRequest_destroy env (v (PROJECT_TAG K))
                      (case v (PR_TAG K) of None \<Rightarrow> ''undefined'' | Some n \<Rightarrow> n))"
    using rdy by (simp add: destroyPR_ready)
  have sweep: "trace_of (all_list (mapDestroy K env ?dead) st) = map ?ev ?dead"
    unfolding mapDestroy_def
    using all_list_fixed_state
      [where f = "\<lambda>v. destroyPR env (v (PROJECT_TAG K)) (v (PR_TAG K))" and ev = ?ev
        and out = "\<lambda>v. pullRequest_destroy env (v (PROJECT_TAG K))
                      (case v (PR_TAG K) of None \<Rightarrow> ''undefined'' | Some n \<Rightarrow> n)"
        and xs = ?dead and st = st]
      each
    by simp
  have tr: "trace_of (destroyExpiredPRs K env now st) = EvEc2MgrDescribe # map ?ev ?dead"
  proof -
    obtain s2 r2 where a: "all_list (mapDestroy K env ?dead) st = (s2, map ?ev ?dead, r2)"
      using sweep by (cases "all_list (mapDestroy K env ?dead) st") (simp add: trace_of_def)
    show ?thesis
      using rdy described
      by (simp add: destroyExpiredPRs_def state_ready then_p_def call_def Let_def dead a trace_of_def)
  qed
  have mem: "EvPullRequestDestroy a n \<in> set (trace_of (destroyExpiredPRs K env now st)) \<longleftrightarrow>
              (\<exists>obj\<in>set (extractKeys d).
                 expired_pr K now obj \<and> obj (PROJECT_TAG K) = a \<and> obj (PR_TAG K) = Some n)" for a n
  proof
    assume "EvPullRequestDestroy a n \<in> set (trace_of (destroyExpiredPRs K env now st))"
    then have "EvPullRequestDestroy a n \<in> ?ev ` set ?dead"
      unfolding tr by simp
    then obtain obj where obj: "obj \<in> set ?dead" "EvPullRequestDestroy a n = ?ev obj"
      by (rule imageE)
    from obj(1) have e: "obj \<in> set (extractKeys d)" "expired_pr K now obj" by simp_all
    from e(2) obtain m where m: "obj (PR_TAG K) = Some m"
      by (auto simp: expired_pr_def)
    with obj(2) have "obj (PROJECT_TAG K) = a" "m = n" by simp_all
    with e m show "\<exists>obj\<in>set (extractKeys d).
        expired_pr K now obj \<and> obj (PROJECT_TAG K) = a \<and> obj (PR_TAG K) = Some n"
      by blast
  next
    assume "\<exists>obj\<in>set (extractKeys d).
        expired_pr K now obj \<and> obj (PROJECT_TAG K) = a \<and> obj (PR_TAG K) = Some n"
    then obtain obj where obj: "obj \<in> set (extractKeys d)" "expired_pr K now obj"
      "obj (PROJECT_TAG K) = a" "obj (PR_TAG K) = Some n"
      by blast
    then have "obj \<in> set ?dead" "?ev obj = EvPullRequestDestroy a n" by simp_all
    then have "EvPullRequestDestroy a n \<in> ?ev ` set ?dead"
      by (metis (no_types, lifting) image_eqI)
    then show "EvPullRequestDestroy a n \<in> set (trace_of (destroyExpiredPRs K env now st))"
      unfolding tr by simp
  qed
  from tr mem show ?thesis by blast
qed

theorem destroyExpiredPRs_sweeps_expired_witness:
  "ready initialised
   \<and> list_all (written_tags sample_keys) (extractKeys sample_reservations)
   \<and> trace_of (destroyExpiredPRs sample_keys sample_account 500000000 initialised) =
       [EvEc2MgrDescribe, EvPullRequestDestroy (Some ''proj'') ''7'']"
proof -
  have rdy: "ready initialised" by (simp add: ready_def initialised_def)
  have described: "ec2Mgr_describe sample_account = Inr sample_reservations"
    by (simp add: sample_account_def)
  have w: "list_all (written_tags sample_keys) (extractKeys sample_reservations)"
    by code_simp
  then have written: "\<forall>obj\<in>set (extractKeys sample_reservations). written_tags sample_keys obj"
    by (simp add: list_all_iff)
  have dead: "map (\<lambda>obj. EvPullRequestDestroy (obj (PROJECT_TAG sample_keys))
                        (case obj (PR_TAG sample_keys) of None \<Rightarrow> ''undefined'' | Some n \<Rightarrow> n))
             (filter (expired_pr sample_keys 500000000) (extractKeys sample_reservations)) =
        [EvPullRequestDestroy (Some ''proj'') ''7'']"
    by code_simp
  from destroyExpiredPRs_sweeps_expired [OF rdy described written, of 500000000]
  have "trace_of (destroyExpiredPRs sample_keys sample_account 500000000 initialised) =
       [EvEc2MgrDescribe, EvPullRequestDestroy (Some ''proj'') ''7'']"
    unfolding dead by (rule conjunct1)
  with rdy w show ?thesis by simp
qed

end
